theory Spec2Isabelle
  imports Main "HOL-Library.Sublist"
begin

section \<open>Data model of pkg/providers/aws/cluster\_vpc.go\<close>

text \<open>
  The SDK's structs (package ec2 of aws-sdk-go) are records. A field of pointer type
  (\<^verbatim>\<open>*string\<close>, \<^verbatim>\<open>*int64\<close>) is an \<open>option\<close>: \<open>None\<close> is the nil pointer, and dereferencing
  it (\<^verbatim>\<open>*tag.Value\<close>) is the outcome \<open>Panic\<close> of the model. A slice that the code only ranges
  over is a list; the slices inside an \<open>IpPermission\<close> are \<open>list option\<close>, because
  \<^verbatim>\<open>reflect.DeepEqual\<close> tells a nil slice from an empty one. With these types
  \<^verbatim>\<open>reflect.DeepEqual\<close> on two permissions is HOL equality. The elements of the SDK's
  slices are pointers to structs; the SDK puts no nil among them, and the model takes
  them as the structs themselves.
\<close>

record Tag =
  Tag_Key :: "string option"
  Tag_Value :: "string option"

record Vpc =
  Vpc_VpcId :: "string option"
  Vpc_CidrBlock :: "string option"
  Vpc_Tags :: "Tag list"

record Subnet =
  Subnet_SubnetId :: "string option"
  Subnet_VpcId :: "string option"
  Subnet_Tags :: "Tag list"

record IpRange =
  CidrIp :: "string option"
  IpRange_Description :: "string option"

record Ipv6Range =
  CidrIpv6 :: "string option"
  Ipv6Range_Description :: "string option"

record PrefixListId =
  PrefixListId_Description :: "string option"
  PrefixListId_PrefixListId :: "string option"

record UserIdGroupPair =
  UserIdGroupPair_Description :: "string option"
  UserIdGroupPair_GroupId :: "string option"
  UserIdGroupPair_GroupName :: "string option"
  UserIdGroupPair_PeeringStatus :: "string option"
  UserIdGroupPair_UserId :: "string option"
  UserIdGroupPair_VpcId :: "string option"
  UserIdGroupPair_VpcPeeringConnectionId :: "string option"

record IpPermission =
  FromPort :: "int option"
  IpProtocol :: "string option"
  IpRanges :: "IpRange list option"
  Ipv6Ranges :: "Ipv6Range list option"
  PrefixListIds :: "PrefixListId list option"
  ToPort :: "int option"
  UserIdGroupPairs :: "UserIdGroupPair list option"

record SecurityGroup =
  SecurityGroup_Description :: "string option"
  SecurityGroup_GroupId :: "string option"
  SecurityGroup_GroupName :: "string option"
  SecurityGroup_IpPermissions :: "IpPermission list"
  SecurityGroup_VpcId :: "string option"

record CreateSecurityGroupInput =
  Create_Description :: "string option"
  Create_GroupName :: "string option"
  Create_VpcId :: "string option"

record AuthorizeSecurityGroupIngressInput =
  Authorize_GroupId :: "string option"
  Authorize_IpPermissions :: "IpPermission list"

text \<open>
  Errors are values: \<open>New msg\<close> is \<^verbatim>\<open>errorUtil.New(msg)\<close> (and \<^verbatim>\<open>errors.New\<close>),
  \<open>Wrap err msg\<close> is \<^verbatim>\<open>errorUtil.Wrap(err, msg)\<close>. A Go function returning
  \<^verbatim>\<open>(T, error)\<close> returns a \<open>result\<close>: \<open>Return x\<close> when the error is nil, \<open>Error err\<close>
  otherwise, and \<open>Panic\<close> when it dereferences a nil pointer.
\<close>

datatype error = New string | Wrap error string

datatype 'a result = Return 'a | Error error | Panic

text \<open>
  \<^verbatim>\<open>context.Context\<close>, as far as this file could observe it: whether its deadline has
  passed.
\<close>

record Context =
  deadline_expired :: bool

text \<open>
  The collaborators that are not in this file, reached through the Kubernetes client
  \<^verbatim>\<open>c\<close>: \<^verbatim>\<open>resources.GetClusterID(ctx, c)\<close>, \<^verbatim>\<open>BuildInfraName(ctx, c, postfix, n)\<close> and the
  constant \<^verbatim>\<open>DefaultAwsIdentifierLength\<close>. They are parameters of the model.
\<close>

record client =
  GetClusterID :: "Context \<Rightarrow> error + string"
  BuildInfraName :: "Context \<Rightarrow> string \<Rightarrow> nat \<Rightarrow> error + string"
  DefaultAwsIdentifierLength :: nat

text \<open>
  \<^verbatim>\<open>ec2iface.EC2API\<close>: the provider, a state machine over an arbitrary state \<open>'s\<close>. Each
  method takes the provider's state and returns its answer and the next state, so that
  two calls of one method may answer differently (eventual consistency). Beside the five
  methods this file calls, the interface is represented by methods that delete or change
  security groups, subnets and VPCs. \<open>Sleep d\<close> is not a method of the SDK: it is the
  passing of \<open>d\<close> seconds inside \<^verbatim>\<open>wait.PollImmediate\<close>, during which the provider's state
  may change.
\<close>

record 's EC2API =
  DescribeSubnets :: "'s \<Rightarrow> (error + Subnet list) \<times> 's"
  DescribeVpcs :: "'s \<Rightarrow> (error + Vpc list) \<times> 's"
  DescribeSecurityGroups :: "'s \<Rightarrow> (error + SecurityGroup list) \<times> 's"
  CreateSecurityGroup :: "CreateSecurityGroupInput \<Rightarrow> 's \<Rightarrow> (error + unit) \<times> 's"
  AuthorizeSecurityGroupIngress ::
    "AuthorizeSecurityGroupIngressInput \<Rightarrow> 's \<Rightarrow> (error + unit) \<times> 's"
  DeleteSecurityGroup :: "string \<Rightarrow> 's \<Rightarrow> (error + unit) \<times> 's"
  RevokeSecurityGroupIngress ::
    "AuthorizeSecurityGroupIngressInput \<Rightarrow> 's \<Rightarrow> (error + unit) \<times> 's"
  CreateSubnet :: "string \<Rightarrow> 's \<Rightarrow> (error + unit) \<times> 's"
  DeleteSubnet :: "string \<Rightarrow> 's \<Rightarrow> (error + unit) \<times> 's"
  ModifySubnetAttribute :: "string \<Rightarrow> 's \<Rightarrow> (error + unit) \<times> 's"
  CreateVpc :: "string \<Rightarrow> 's \<Rightarrow> (error + unit) \<times> 's"
  DeleteVpc :: "string \<Rightarrow> 's \<Rightarrow> (error + unit) \<times> 's"
  ModifyVpcAttribute :: "string \<Rightarrow> 's \<Rightarrow> (error + unit) \<times> 's"
  Sleep :: "nat \<Rightarrow> 's \<Rightarrow> 's"

section \<open>The operations\<close>

definition defaultSubnetPostfix :: string where
  "defaultSubnetPostfix = ''subnet-group''"

definition defaultSecurityGroupPostfix :: string where
  "defaultSecurityGroupPostfix = ''security-group''"

subsection \<open>getSubnets: the poll\<close>

definition ErrWaitTimeout :: error where
  "ErrWaitTimeout = New ''timed out waiting for the condition''"

text \<open>
  Modelled from the spec: \<^verbatim>\<open>wait.PollImmediate(interval, timeout, condition)\<close> of
  k8s.io/apimachinery is not in this repository. Following section 4.1 it runs the
  condition immediately and, while the condition is not done, again after every
  \<open>interval\<close>, until the elapsed time would pass \<open>timeout\<close>; an error of the condition
  ends the poll with that error, a poll that runs out of time ends with
  \<open>ErrWaitTimeout\<close>. Time is logical: a call takes none, \<open>sleep interval\<close> takes
  \<open>interval\<close> seconds, \<open>elapsed\<close> is the time slept so far. A zero interval is treated
  as an exhausted budget.
\<close>

function PollImmediate_from ::
  "nat \<Rightarrow> (nat \<Rightarrow> 't \<Rightarrow> 't) \<Rightarrow> nat \<Rightarrow> nat \<Rightarrow> ('t \<Rightarrow> (bool \<times> error option) \<times> 't) \<Rightarrow> 't
    \<Rightarrow> error option \<times> 't" where
  "PollImmediate_from elapsed sleep interval timeout condition t =
     (case condition t of
        ((done, Some err), t') \<Rightarrow> (Some err, t')
      | ((True, None), t') \<Rightarrow> (None, t')
      | ((False, None), t') \<Rightarrow>
          if interval = 0 \<or> timeout < elapsed + interval then (Some ErrWaitTimeout, t')
          else PollImmediate_from (elapsed + interval) sleep interval timeout condition
                 (sleep interval t'))"
  by pat_completeness auto
termination
  by (relation "measure (\<lambda>(elapsed, sleep, interval, timeout, condition, t).
        Suc timeout - elapsed)") auto

definition PollImmediate ::
  "(nat \<Rightarrow> 't \<Rightarrow> 't) \<Rightarrow> nat \<Rightarrow> nat \<Rightarrow> ('t \<Rightarrow> (bool \<times> error option) \<times> 't) \<Rightarrow> 't
    \<Rightarrow> error option \<times> 't" where
  "PollImmediate = PollImmediate_from 0"

text \<open>
  The closure handed to the poll. Its captured variable \<^verbatim>\<open>subs\<close> is the first component
  of the poll's state. A failing \<^verbatim>\<open>DescribeSubnets\<close> is answered \<^verbatim>\<open>(false, nil)\<close>.
\<close>

definition getSubnets_condition ::
  "'s EC2API \<Rightarrow> Subnet list \<times> 's \<Rightarrow> (bool \<times> error option) \<times> (Subnet list \<times> 's)" where
  "getSubnets_condition ec2Svc = (\<lambda>(subs, s).
     (case DescribeSubnets ec2Svc s of
        (Inl err, s') \<Rightarrow> ((False, None), (subs, s'))
      | (Inr listOutput, s') \<Rightarrow> ((True, None), (listOutput, s'))))"

definition getSubnets :: "'s EC2API \<Rightarrow> 's \<Rightarrow> Subnet list result \<times> 's" where
  "getSubnets ec2Svc s =
     (case PollImmediate (\<lambda>d (subs, s). (subs, Sleep ec2Svc d s)) 5 (5 * 60)
             (getSubnets_condition ec2Svc) ([], s) of
        (Some err, (subs, s')) \<Rightarrow> (Error err, s')
      | (None, (subs, s')) \<Rightarrow> (Return subs, s'))"

subsection \<open>getVpc and GetCidr\<close>

text \<open>The inner loop of \<^verbatim>\<open>getVpc\<close> over the tags of one VPC; \<open>foundVPC\<close> is the variable.\<close>

fun getVpc_tags :: "string \<Rightarrow> Vpc \<Rightarrow> Tag list \<Rightarrow> Vpc option \<Rightarrow> Vpc option result" where
  "getVpc_tags clusterID vpc [] foundVPC = Return foundVPC"
| "getVpc_tags clusterID vpc (tag # tags) foundVPC =
     (case Tag_Value tag of
        None \<Rightarrow> Panic
      | Some v \<Rightarrow>
          getVpc_tags clusterID vpc tags
            (if v = clusterID @ ''-vpc'' then Some vpc else foundVPC))"

text \<open>The outer loop over the listed VPCs.\<close>

fun getVpc_vpcs :: "string \<Rightarrow> Vpc list \<Rightarrow> Vpc option \<Rightarrow> Vpc option result" where
  "getVpc_vpcs clusterID [] foundVPC = Return foundVPC"
| "getVpc_vpcs clusterID (vpc # vpcs) foundVPC =
     (case getVpc_tags clusterID vpc (Vpc_Tags vpc) foundVPC of
        Return foundVPC' \<Rightarrow> getVpc_vpcs clusterID vpcs foundVPC'
      | Error err \<Rightarrow> Error err
      | Panic \<Rightarrow> Panic)"

definition getVpc :: "Context \<Rightarrow> client \<Rightarrow> 's EC2API \<Rightarrow> 's \<Rightarrow> Vpc option result \<times> 's" where
  "getVpc ctx c ec2Svc s =
     (case DescribeVpcs ec2Svc s of
        (Inl err, s') \<Rightarrow> (Error (Wrap err ''error getting subnets''), s')
      | (Inr vpcs, s') \<Rightarrow>
          (case GetClusterID c ctx of
             Inl err \<Rightarrow> (Error (Wrap err ''error getting clusterID''), s')
           | Inr clusterID \<Rightarrow>
               (case getVpc_vpcs clusterID vpcs None of
                  Panic \<Rightarrow> (Panic, s')
                | Error err \<Rightarrow> (Error err, s')
                | Return None \<Rightarrow> (Error (New ''error, no vpc found''), s')
                | Return (Some foundVPC) \<Rightarrow> (Return (Some foundVPC), s'))))"

definition GetCidr ::
  "Context \<Rightarrow> client \<Rightarrow> 's EC2API \<Rightarrow> 's \<Rightarrow> (string \<times> string) result \<times> 's" where
  "GetCidr ctx c ec2Svc s =
     (case getVpc ctx c ec2Svc s of
        (Panic, s') \<Rightarrow> (Panic, s')
      | (Error err, s') \<Rightarrow> (Error (Wrap err ''error getting vpcs''), s')
      | (Return None, s') \<Rightarrow> (Error (New ''error, unable to find a vpc''), s')
      | (Return (Some foundVPC), s') \<Rightarrow>
          (case Vpc_VpcId foundVPC of
             None \<Rightarrow> (Panic, s')
           | Some vpcID \<Rightarrow>
               (case Vpc_CidrBlock foundVPC of
                  None \<Rightarrow> (Panic, s')
                | Some cidr \<Rightarrow> (Return (vpcID, cidr), s'))))"

subsection \<open>GetVPCSubnets, GetAllSubnetIDS, GetPrivateSubnetIDS\<close>

text \<open>
  The loop that collects the associated subnets; \<open>associatedSubs\<close> is the slice
  appended to. \<^verbatim>\<open>*sub.VpcId == *foundVPC.VpcId\<close> dereferences both pointers.
\<close>

fun GetVPCSubnets_loop :: "Subnet list \<Rightarrow> Vpc \<Rightarrow> Subnet list \<Rightarrow> Subnet list result" where
  "GetVPCSubnets_loop [] foundVPC associatedSubs = Return associatedSubs"
| "GetVPCSubnets_loop (sub # subs) foundVPC associatedSubs =
     (case Subnet_VpcId sub of
        None \<Rightarrow> Panic
      | Some a \<Rightarrow>
          (case Vpc_VpcId foundVPC of
             None \<Rightarrow> Panic
           | Some b \<Rightarrow>
               GetVPCSubnets_loop subs foundVPC
                 (if a = b then associatedSubs @ [sub] else associatedSubs)))"

definition GetVPCSubnets ::
  "Context \<Rightarrow> client \<Rightarrow> 's EC2API \<Rightarrow> 's \<Rightarrow> Subnet list result \<times> 's" where
  "GetVPCSubnets ctx c ec2Svc s =
     (case getSubnets ec2Svc s of
        (Panic, s1) \<Rightarrow> (Panic, s1)
      | (Error err, s1) \<Rightarrow> (Error (Wrap err ''error getting subnets''), s1)
      | (Return subs, s1) \<Rightarrow>
          (case getVpc ctx c ec2Svc s1 of
             (Panic, s2) \<Rightarrow> (Panic, s2)
           | (Error err, s2) \<Rightarrow> (Error (Wrap err ''error getting vpcs''), s2)
           | (Return None, s2) \<Rightarrow> (Error (New ''error, unable to find a vpc''), s2)
           | (Return (Some foundVPC), s2) \<Rightarrow>
               (case GetVPCSubnets_loop subs foundVPC [] of
                  Panic \<Rightarrow> (Panic, s2)
                | Error err \<Rightarrow> (Error err, s2)
                | Return associatedSubs \<Rightarrow>
                    if associatedSubs = []
                    then (Error (New
                      ''error, unable to find subnets associated with cluster vpc''), s2)
                    else (Return associatedSubs, s2))))"

definition GetAllSubnetIDS ::
  "Context \<Rightarrow> client \<Rightarrow> 's EC2API \<Rightarrow> 's \<Rightarrow> string option list result \<times> 's" where
  "GetAllSubnetIDS ctx c ec2Svc s =
     (case GetVPCSubnets ctx c ec2Svc s of
        (Panic, s') \<Rightarrow> (Panic, s')
      | (Error err, s') \<Rightarrow> (Error (Wrap err ''error getting vpc subnets''), s')
      | (Return subs, s') \<Rightarrow>
          (let subIDs = map Subnet_SubnetId subs in
           if subIDs = [] then (Error (New ''failed to get list of subnet ids''), s')
           else (Return subIDs, s')))"

text \<open>
  Modelled from the spec: Go's \<^verbatim>\<open>regexp\<close> package is not in this repository. What follows
  is the meaning, in RE2 syntax, of the one pattern the file compiles,
  \<^verbatim>\<open>\b(\w*private\w*)\b\<close>, for \<^verbatim>\<open>MatchString\<close>: \<^verbatim>\<open>\w\<close> is an ASCII letter, digit or
  underscore; \<^verbatim>\<open>\b\<close> holds between two positions when exactly one of the bytes before and
  after is a \<^verbatim>\<open>\w\<close>; the pattern matches a string when some segment of it, from position
  \<open>i\<close> to position \<open>j\<close>, has \<^verbatim>\<open>\b\<close> at both ends and is \<^verbatim>\<open>\w*\<close>, the bytes \<^verbatim>\<open>private\<close>,
  \<^verbatim>\<open>\w*\<close>.
\<close>

definition word_char :: "char \<Rightarrow> bool" where
  "word_char ch =
     (ch \<in> set ''0123456789ABCDEFGHIJKLMNOPQRSTUVWXYZ_abcdefghijklmnopqrstuvwxyz'')"

definition word_boundary :: "string \<Rightarrow> string \<Rightarrow> bool" where
  "word_boundary before after =
     ((before \<noteq> [] \<and> word_char (last before)) \<noteq> (after \<noteq> [] \<and> word_char (hd after)))"

definition word_private_word :: "string \<Rightarrow> bool" where
  "word_private_word m =
     list_ex (\<lambda>k. list_all word_char (take k m) \<and> prefix ''private'' (drop k m)
                 \<and> list_all word_char (drop (k + 7) m))
       [0..<Suc (length m)]"

definition MatchString_private :: "string \<Rightarrow> bool" where
  "MatchString_private str =
     list_ex (\<lambda>i. list_ex (\<lambda>j.
         word_boundary (take i str) (drop i str)
       \<and> word_private_word (take (j - i) (drop i str))
       \<and> word_boundary (take j str) (drop j str)) [i..<Suc (length str)])
       [0..<Suc (length str)]"

text \<open>
  The inner loop of \<^verbatim>\<open>GetPrivateSubnetIDS\<close> over the tags of one subnet: the subnet is
  appended to \<open>privateSubs\<close> at every tag whose value matches. The pattern is a
  constant that compiles, so the error branch after \<^verbatim>\<open>regexp.Compile\<close> is never taken
  and is not part of the model.
\<close>

fun GetPrivateSubnetIDS_tags :: "Subnet \<Rightarrow> Tag list \<Rightarrow> Subnet list \<Rightarrow> Subnet list result" where
  "GetPrivateSubnetIDS_tags sub [] privateSubs = Return privateSubs"
| "GetPrivateSubnetIDS_tags sub (tags # rest) privateSubs =
     (case Tag_Value tags of
        None \<Rightarrow> Panic
      | Some v \<Rightarrow>
          GetPrivateSubnetIDS_tags sub rest
            (if MatchString_private v then privateSubs @ [sub] else privateSubs))"

fun GetPrivateSubnetIDS_subs :: "Subnet list \<Rightarrow> Subnet list \<Rightarrow> Subnet list result" where
  "GetPrivateSubnetIDS_subs [] privateSubs = Return privateSubs"
| "GetPrivateSubnetIDS_subs (sub # subs) privateSubs =
     (case GetPrivateSubnetIDS_tags sub (Subnet_Tags sub) privateSubs of
        Return privateSubs' \<Rightarrow> GetPrivateSubnetIDS_subs subs privateSubs'
      | Error err \<Rightarrow> Error err
      | Panic \<Rightarrow> Panic)"

definition GetPrivateSubnetIDS ::
  "Context \<Rightarrow> client \<Rightarrow> 's EC2API \<Rightarrow> 's \<Rightarrow> string option list result \<times> 's" where
  "GetPrivateSubnetIDS ctx c ec2Svc s =
     (case GetVPCSubnets ctx c ec2Svc s of
        (Panic, s') \<Rightarrow> (Panic, s')
      | (Error err, s') \<Rightarrow> (Error (Wrap err ''error getting vpc subnets''), s')
      | (Return subs, s') \<Rightarrow>
          (case GetPrivateSubnetIDS_subs subs [] of
             Panic \<Rightarrow> (Panic, s')
           | Error err \<Rightarrow> (Error err, s')
           | Return privateSubs \<Rightarrow>
               (let subIDs = map Subnet_SubnetId privateSubs in
                if subIDs = []
                then (Error (New ''failed to get list of private subnet ids''), s')
                else (Return subIDs, s'))))"

subsection \<open>getSecurityGroup and SetupSecurityGroup\<close>

text \<open>The loop of \<^verbatim>\<open>getSecurityGroup\<close>: it stops at the first group of that name.\<close>

fun getSecurityGroup_loop :: "SecurityGroup list \<Rightarrow> string \<Rightarrow> SecurityGroup option result" where
  "getSecurityGroup_loop [] secName = Return None"
| "getSecurityGroup_loop (sec # secGroups) secName =
     (case SecurityGroup_GroupName sec of
        None \<Rightarrow> Panic
      | Some n \<Rightarrow> if n = secName then Return (Some sec)
                  else getSecurityGroup_loop secGroups secName)"

definition getSecurityGroup ::
  "'s EC2API \<Rightarrow> string \<Rightarrow> 's \<Rightarrow> SecurityGroup option result \<times> 's" where
  "getSecurityGroup ec2Svc secName s =
     (case DescribeSecurityGroups ec2Svc s of
        (Inl err, s') \<Rightarrow>
          (Error (Wrap err ''failed to return information about security groups''), s')
      | (Inr secGroups, s') \<Rightarrow> (getSecurityGroup_loop secGroups secName, s'))"

text \<open>The permission that \<^verbatim>\<open>SetupSecurityGroup\<close> builds from the VPC's CIDR block.\<close>

definition ipPermission :: "string \<Rightarrow> IpPermission" where
  "ipPermission cidr =
     \<lparr>FromPort = None, IpProtocol = Some ''-1'',
      IpRanges = Some [\<lparr>CidrIp = Some cidr, IpRange_Description = None\<rparr>],
      Ipv6Ranges = None, PrefixListIds = None, ToPort = None, UserIdGroupPairs = None\<rparr>"

text \<open>The loop over the group's permissions: \<^verbatim>\<open>reflect.DeepEqual(perm, ipPermission)\<close>.\<close>

fun permissions_in_place :: "IpPermission list \<Rightarrow> IpPermission \<Rightarrow> bool" where
  "permissions_in_place [] p = False"
| "permissions_in_place (perm # perms) p =
     (if perm = p then True else permissions_in_place perms p)"

definition SetupSecurityGroup ::
  "Context \<Rightarrow> client \<Rightarrow> 's EC2API \<Rightarrow> 's \<Rightarrow> unit result \<times> 's" where
  "SetupSecurityGroup ctx c ec2Svc s =
     (case GetClusterID c ctx of
        Inl err \<Rightarrow> (Error (Wrap err ''error getting cluster id''), s)
      | Inr clusterID \<Rightarrow>
     (case BuildInfraName c ctx defaultSecurityGroupPostfix (DefaultAwsIdentifierLength c) of
        Inl err \<Rightarrow> (Error (Wrap err ''error building subnet group name''), s)
      | Inr secName \<Rightarrow>
     (case GetCidr ctx c ec2Svc s of
        (Panic, s1) \<Rightarrow> (Panic, s1)
      | (Error err, s1) \<Rightarrow> (Error (Wrap err ''error finding cidr block''), s1)
      | (Return (vpcID, cidr), s1) \<Rightarrow>
     (case getSecurityGroup ec2Svc secName s1 of
        (Panic, s2) \<Rightarrow> (Panic, s2)
      | (Error err, s2) \<Rightarrow> (Error (Wrap err ''error get security group''), s2)
      | (Return None, s2) \<Rightarrow>
          (case CreateSecurityGroup ec2Svc
                  \<lparr>Create_Description = Some (''security group for cluster '' @ clusterID),
                   Create_GroupName = Some secName,
                   Create_VpcId = Some vpcID\<rparr> s2 of
             (Inl err, s3) \<Rightarrow> (Error (Wrap err ''error creating security group''), s3)
           | (Inr _, s3) \<Rightarrow> (Return (), s3))
      | (Return (Some foundSecGroup), s2) \<Rightarrow>
          if permissions_in_place (SecurityGroup_IpPermissions foundSecGroup) (ipPermission cidr)
          then (Return (), s2)
          else
            (case SecurityGroup_GroupId foundSecGroup of
               None \<Rightarrow> (Panic, s2)
             | Some groupId \<Rightarrow>
                 (case AuthorizeSecurityGroupIngress ec2Svc
                         \<lparr>Authorize_GroupId = Some groupId,
                          Authorize_IpPermissions = [ipPermission cidr]\<rparr> s2 of
                    (Inl err, s3) \<Rightarrow>
                      (Error (Wrap err ''error authorizing security group ingress''), s3)
                  | (Inr _, s3) \<Rightarrow> (Return (), s3)))))))"

section \<open>Observing the calls\<close>

text \<open>
  The calls a run issues, in order. \<open>recording ec2Svc\<close> behaves as \<open>ec2Svc\<close> and appends
  every call it receives to a log kept beside the provider's state (the mock of a test).
\<close>

datatype call =
    DescribeSubnetsCall
  | DescribeVpcsCall
  | DescribeSecurityGroupsCall
  | CreateSecurityGroupCall CreateSecurityGroupInput
  | AuthorizeSecurityGroupIngressCall AuthorizeSecurityGroupIngressInput
  | DeleteSecurityGroupCall string
  | RevokeSecurityGroupIngressCall AuthorizeSecurityGroupIngressInput
  | CreateSubnetCall string
  | DeleteSubnetCall string
  | ModifySubnetAttributeCall string
  | CreateVpcCall string
  | DeleteVpcCall string
  | ModifyVpcAttributeCall string
  | SleepCall nat

definition record_call ::
  "call \<Rightarrow> ('s \<Rightarrow> 'a \<times> 's) \<Rightarrow> 's \<times> call list \<Rightarrow> 'a \<times> ('s \<times> call list)" where
  "record_call cl f = (\<lambda>(s, log). (fst (f s), (snd (f s), log @ [cl])))"

definition recording :: "'s EC2API \<Rightarrow> ('s \<times> call list) EC2API" where
  "recording ec2Svc =
     \<lparr>DescribeSubnets = record_call DescribeSubnetsCall (DescribeSubnets ec2Svc),
      DescribeVpcs = record_call DescribeVpcsCall (DescribeVpcs ec2Svc),
      DescribeSecurityGroups =
        record_call DescribeSecurityGroupsCall (DescribeSecurityGroups ec2Svc),
      CreateSecurityGroup =
        (\<lambda>x. record_call (CreateSecurityGroupCall x) (CreateSecurityGroup ec2Svc x)),
      AuthorizeSecurityGroupIngress =
        (\<lambda>x. record_call (AuthorizeSecurityGroupIngressCall x)
                (AuthorizeSecurityGroupIngress ec2Svc x)),
      DeleteSecurityGroup =
        (\<lambda>x. record_call (DeleteSecurityGroupCall x) (DeleteSecurityGroup ec2Svc x)),
      RevokeSecurityGroupIngress =
        (\<lambda>x. record_call (RevokeSecurityGroupIngressCall x)
                (RevokeSecurityGroupIngress ec2Svc x)),
      CreateSubnet = (\<lambda>x. record_call (CreateSubnetCall x) (CreateSubnet ec2Svc x)),
      DeleteSubnet = (\<lambda>x. record_call (DeleteSubnetCall x) (DeleteSubnet ec2Svc x)),
      ModifySubnetAttribute =
        (\<lambda>x. record_call (ModifySubnetAttributeCall x) (ModifySubnetAttribute ec2Svc x)),
      CreateVpc = (\<lambda>x. record_call (CreateVpcCall x) (CreateVpc ec2Svc x)),
      DeleteVpc = (\<lambda>x. record_call (DeleteVpcCall x) (DeleteVpc ec2Svc x)),
      ModifyVpcAttribute =
        (\<lambda>x. record_call (ModifyVpcAttributeCall x) (ModifyVpcAttribute ec2Svc x)),
      Sleep = (\<lambda>d (s, log). (Sleep ec2Svc d s, log @ [SleepCall d]))\<rparr>"

text \<open>The calls issued by a run that started with an empty log.\<close>

definition calls_of :: "'a \<times> ('s \<times> call list) \<Rightarrow> call list" where
  "calls_of run = snd (snd run)"

text \<open>
  A call that changes nothing at the provider: the three listings, and waiting.
\<close>

fun read_only :: "call \<Rightarrow> bool" where
  "read_only DescribeSubnetsCall = True"
| "read_only DescribeVpcsCall = True"
| "read_only DescribeSecurityGroupsCall = True"
| "read_only (SleepCall d) = True"
| "read_only cl = False"

text \<open>The two mutating calls the spec allows.\<close>

fun create_or_authorize :: "call \<Rightarrow> bool" where
  "create_or_authorize (CreateSecurityGroupCall x) = True"
| "create_or_authorize (AuthorizeSecurityGroupIngressCall x) = True"
| "create_or_authorize cl = False"

definition mutating_calls :: "call list \<Rightarrow> call list" where
  "mutating_calls log = filter (\<lambda>cl. \<not> read_only cl) log"

section \<open>A provider fixture\<close>

text \<open>
  Modelled from the spec: the provider is the cloud's API, not code of this repository.
  This is the fixture of section 8, a provider whose state "reflects the call's effects":
  it holds the VPCs, subnets and security groups, answers every call with an
  authorization failure until its clock reaches \<open>fake_ready_at\<close> (the credentials have not
  propagated yet, section 4.1), creates a group without permissions under the identifier
  \<^verbatim>\<open>sg-<name>\<close>, and appends the permissions of an authorize call to the groups of the
  given identifier. The methods that this file never calls are answered with an error.
\<close>

record fake_ec2 =
  fake_now :: nat
  fake_ready_at :: nat
  fake_Vpcs :: "Vpc list"
  fake_Subnets :: "Subnet list"
  fake_SecurityGroups :: "SecurityGroup list"

definition AuthFailure :: error where
  "AuthFailure = New ''AuthFailure''"

definition fake_call :: "(fake_ec2 \<Rightarrow> 'a \<times> fake_ec2) \<Rightarrow> fake_ec2 \<Rightarrow> (error + 'a) \<times> fake_ec2" where
  "fake_call f s =
     (if fake_now s < fake_ready_at s then (Inl AuthFailure, s)
      else (Inr (fst (f s)), snd (f s)))"

definition fake_create :: "CreateSecurityGroupInput \<Rightarrow> fake_ec2 \<Rightarrow> fake_ec2" where
  "fake_create x s =
     s\<lparr>fake_SecurityGroups := fake_SecurityGroups s @
         [\<lparr>SecurityGroup_Description = Create_Description x,
           SecurityGroup_GroupId =
             Some (''sg-'' @ (case Create_GroupName x of None \<Rightarrow> [] | Some n \<Rightarrow> n)),
           SecurityGroup_GroupName = Create_GroupName x,
           SecurityGroup_IpPermissions = [],
           SecurityGroup_VpcId = Create_VpcId x\<rparr>]\<rparr>"

definition fake_authorize_group ::
  "AuthorizeSecurityGroupIngressInput \<Rightarrow> SecurityGroup \<Rightarrow> SecurityGroup" where
  "fake_authorize_group x g =
     (if SecurityGroup_GroupId g = Authorize_GroupId x \<and> Authorize_GroupId x \<noteq> None
      then g\<lparr>SecurityGroup_IpPermissions :=
               SecurityGroup_IpPermissions g @ Authorize_IpPermissions x\<rparr>
      else g)"

definition fake_authorize :: "AuthorizeSecurityGroupIngressInput \<Rightarrow> fake_ec2 \<Rightarrow> fake_ec2" where
  "fake_authorize x s =
     s\<lparr>fake_SecurityGroups := map (fake_authorize_group x) (fake_SecurityGroups s)\<rparr>"

definition fake_unsupported :: "'x \<Rightarrow> fake_ec2 \<Rightarrow> (error + unit) \<times> fake_ec2" where
  "fake_unsupported x s = (Inl (New ''UnsupportedOperation''), s)"

definition fake :: "fake_ec2 EC2API" where
  "fake =
     \<lparr>DescribeSubnets = fake_call (\<lambda>s. (fake_Subnets s, s)),
      DescribeVpcs = fake_call (\<lambda>s. (fake_Vpcs s, s)),
      DescribeSecurityGroups = fake_call (\<lambda>s. (fake_SecurityGroups s, s)),
      CreateSecurityGroup = (\<lambda>x. fake_call (\<lambda>s. ((), fake_create x s))),
      AuthorizeSecurityGroupIngress = (\<lambda>x. fake_call (\<lambda>s. ((), fake_authorize x s))),
      DeleteSecurityGroup = fake_unsupported,
      RevokeSecurityGroupIngress = fake_unsupported,
      CreateSubnet = fake_unsupported,
      DeleteSubnet = fake_unsupported,
      ModifySubnetAttribute = fake_unsupported,
      CreateVpc = fake_unsupported,
      DeleteVpc = fake_unsupported,
      ModifyVpcAttribute = fake_unsupported,
      Sleep = (\<lambda>d s. s\<lparr>fake_now := fake_now s + d\<rparr>)\<rparr>"

section \<open>Notions used in the statements\<close>

text \<open>Every tag of the list has a value (no nil \<^verbatim>\<open>Value\<close> pointer).\<close>

definition tags_valued :: "Tag list \<Rightarrow> bool" where
  "tags_valued tags = list_all (\<lambda>tag. Tag_Value tag \<noteq> None) tags"

text \<open>The VPC carries a tag whose value is \<^verbatim>\<open><clusterID>-vpc\<close>.\<close>

definition vpc_matches :: "string \<Rightarrow> Vpc \<Rightarrow> bool" where
  "vpc_matches clusterID vpc =
     list_ex (\<lambda>tag. Tag_Value tag = Some (clusterID @ ''-vpc'')) (Vpc_Tags vpc)"

text \<open>The tag's value matches the pattern; the number of such tags of a subnet.\<close>

definition tag_private :: "Tag \<Rightarrow> bool" where
  "tag_private tag = (case Tag_Value tag of None \<Rightarrow> False | Some v \<Rightarrow> MatchString_private v)"

definition private_tags :: "Subnet \<Rightarrow> nat" where
  "private_tags sub = length (filter tag_private (Subnet_Tags sub))"

text \<open>Some tag value of the subnet matches the pattern.\<close>

definition subnet_private :: "Subnet \<Rightarrow> bool" where
  "subnet_private sub = list_ex tag_private (Subnet_Tags sub)"

definition private_ids :: "Subnet list \<Rightarrow> string option list" where
  "private_ids subs =
     concat (map (\<lambda>sub. replicate (private_tags sub) (Subnet_SubnetId sub)) subs)"

text \<open>
  The provider's state at the \<open>k\<close>-th call of \<^verbatim>\<open>DescribeSubnets\<close> by the poll of
  \<open>getSubnets\<close> (the immediate call is the call 0), when all the calls before it failed:
  between two calls the poll sleeps 5 seconds. \<open>poll_calls k\<close> is what the poll has then
  issued, that call included.
\<close>

fun poll_state :: "'s EC2API \<Rightarrow> nat \<Rightarrow> 's \<Rightarrow> 's" where
  "poll_state ec2Svc 0 s = s"
| "poll_state ec2Svc (Suc k) s =
     Sleep ec2Svc 5 (snd (DescribeSubnets ec2Svc (poll_state ec2Svc k s)))"

definition poll_calls :: "nat \<Rightarrow> call list" where
  "poll_calls k =
     concat (replicate k [DescribeSubnetsCall, SleepCall 5]) @ [DescribeSubnetsCall]"

section \<open>Example data\<close>

definition live_ctx :: Context where
  "live_ctx = \<lparr>deadline_expired = False\<rparr>"

definition expired_ctx :: Context where
  "expired_ctx = \<lparr>deadline_expired = True\<rparr>"

text \<open>A client of the cluster \<^verbatim>\<open>bar\<close>, which refuses an expired context.\<close>

definition example_client :: client where
  "example_client =
     \<lparr>GetClusterID = (\<lambda>ctx. if deadline_expired ctx
                               then Inl (New ''context deadline exceeded'') else Inr ''bar''),
      BuildInfraName = (\<lambda>ctx postfix n. if deadline_expired ctx
                               then Inl (New ''context deadline exceeded'')
                               else Inr (take n (''bar-'' @ postfix))),
      DefaultAwsIdentifierLength = 40\<rparr>"

definition name_tag :: "string \<Rightarrow> Tag" where
  "name_tag v = \<lparr>Tag_Key = Some ''Name'', Tag_Value = Some v\<rparr>"

definition vpc_foo :: Vpc where
  "vpc_foo = \<lparr>Vpc_VpcId = Some ''vpc-foo'', Vpc_CidrBlock = Some ''10.1.0.0/16'',
              Vpc_Tags = [name_tag ''foo-vpc'']\<rparr>"

definition vpc_bar :: Vpc where
  "vpc_bar = \<lparr>Vpc_VpcId = Some ''vpc-bar'', Vpc_CidrBlock = Some ''10.0.1.0/16'',
              Vpc_Tags = [name_tag ''bar-vpc'']\<rparr>"

definition vpc_bar_old :: Vpc where
  "vpc_bar_old = \<lparr>Vpc_VpcId = Some ''vpc-old'', Vpc_CidrBlock = Some ''10.2.0.0/16'',
                  Vpc_Tags = [name_tag ''bar-vpc'']\<rparr>"

definition subnet_private_a :: Subnet where
  "subnet_private_a = \<lparr>Subnet_SubnetId = Some ''subnet-a'', Subnet_VpcId = Some ''vpc-bar'',
                       Subnet_Tags = [name_tag ''cluster-private-a'']\<rparr>"

definition subnet_public_a :: Subnet where
  "subnet_public_a = \<lparr>Subnet_SubnetId = Some ''subnet-b'', Subnet_VpcId = Some ''vpc-bar'',
                      Subnet_Tags = [name_tag ''cluster-public-a'']\<rparr>"

definition subnet_twice :: Subnet where
  "subnet_twice = \<lparr>Subnet_SubnetId = Some ''subnet-c'', Subnet_VpcId = Some ''vpc-bar'',
                   Subnet_Tags = [name_tag ''cluster-private-c'',
                     \<lparr>Tag_Key = Some ''role'', Tag_Value = Some ''private''\<rparr>]\<rparr>"

definition subnet_foo :: Subnet where
  "subnet_foo = \<lparr>Subnet_SubnetId = Some ''subnet-d'', Subnet_VpcId = Some ''vpc-foo'',
                 Subnet_Tags = [name_tag ''foo-private-a'']\<rparr>"

text \<open>A provider whose credentials are ready, with no security group yet.\<close>

definition example_provider :: fake_ec2 where
  "example_provider =
     \<lparr>fake_now = 0, fake_ready_at = 0,
      fake_Vpcs = [vpc_bar_old, vpc_foo, vpc_bar],
      fake_Subnets = [subnet_private_a, subnet_public_a, subnet_twice, subnet_foo],
      fake_SecurityGroups = []\<rparr>"

text \<open>A group of another name, and the cluster's group with given permissions.\<close>

definition group_default :: SecurityGroup where
  "group_default =
     \<lparr>SecurityGroup_Description = Some ''default VPC security group'',
      SecurityGroup_GroupId = Some ''sg-0'',
      SecurityGroup_GroupName = Some ''default'',
      SecurityGroup_IpPermissions = [],
      SecurityGroup_VpcId = Some ''vpc-bar''\<rparr>"

definition group_bar :: "IpPermission list \<Rightarrow> SecurityGroup" where
  "group_bar perms =
     \<lparr>SecurityGroup_Description = Some ''security group for cluster bar'',
      SecurityGroup_GroupId = Some ''sg-1'',
      SecurityGroup_GroupName = Some ''bar-security-group'',
      SecurityGroup_IpPermissions = perms,
      SecurityGroup_VpcId = Some ''vpc-bar''\<rparr>"

section \<open>The loops\<close>

lemma getVpc_tags_valued:
  "tags_valued tags \<Longrightarrow>
   getVpc_tags clusterID vpc tags foundVPC =
     Return (if list_ex (\<lambda>tag. Tag_Value tag = Some (clusterID @ ''-vpc'')) tags
             then Some vpc else foundVPC)"
  by (induction tags arbitrary: foundVPC) (auto simp: tags_valued_def)

lemma getVpc_vpcs_valued:
  "list_all (\<lambda>vpc. tags_valued (Vpc_Tags vpc)) vpcs \<Longrightarrow>
   getVpc_vpcs clusterID vpcs foundVPC =
     Return (if filter (vpc_matches clusterID) vpcs = [] then foundVPC
             else Some (last (filter (vpc_matches clusterID) vpcs)))"
  by (induction vpcs arbitrary: foundVPC) (auto simp: getVpc_tags_valued vpc_matches_def)

lemma getVpc_listed:
  assumes "DescribeVpcs ec2Svc s = (Inr vpcs, s')"
    and "GetClusterID c ctx = Inr clusterID"
    and "list_all (\<lambda>vpc. tags_valued (Vpc_Tags vpc)) vpcs"
  shows "getVpc ctx c ec2Svc s =
    (if filter (vpc_matches clusterID) vpcs = [] then Error (New ''error, no vpc found'')
     else Return (Some (last (filter (vpc_matches clusterID) vpcs))), s')"
  using assms by (simp add: getVpc_def getVpc_vpcs_valued)

lemma GetCidr_listed:
  assumes "DescribeVpcs ec2Svc s = (Inr vpcs, s')"
    and "GetClusterID c ctx = Inr clusterID"
    and "list_all (\<lambda>vpc. tags_valued (Vpc_Tags vpc)) vpcs"
    and "filter (vpc_matches clusterID) vpcs \<noteq> []"
    and "Vpc_VpcId (last (filter (vpc_matches clusterID) vpcs)) = Some vpcID"
    and "Vpc_CidrBlock (last (filter (vpc_matches clusterID) vpcs)) = Some cidr"
  shows "GetCidr ctx c ec2Svc s = (Return (vpcID, cidr), s')"
  using assms(4,5,6) by (simp add: GetCidr_def getVpc_listed [OF assms(1,2,3)])

lemma GetVPCSubnets_loop_valued:
  "Vpc_VpcId foundVPC = Some vpcID \<Longrightarrow> list_all (\<lambda>sub. Subnet_VpcId sub \<noteq> None) subs \<Longrightarrow>
   GetVPCSubnets_loop subs foundVPC associatedSubs =
     Return (associatedSubs @ filter (\<lambda>sub. Subnet_VpcId sub = Some vpcID) subs)"
  by (induction subs arbitrary: associatedSubs) auto

lemma GetVPCSubnets_loop_acc:
  "GetVPCSubnets_loop subs foundVPC associatedSubs = Return xs \<Longrightarrow> associatedSubs \<noteq> [] \<Longrightarrow> xs \<noteq> []"
  by (induction subs arbitrary: associatedSubs) (auto split: option.splits if_splits)

lemma GetVPCSubnets_never_empty: "fst (GetVPCSubnets ctx c ec2Svc s) \<noteq> Return []"
  by (auto simp: GetVPCSubnets_def split: prod.splits result.splits option.splits)

lemma GetPrivateSubnetIDS_tags_valued:
  "tags_valued tags \<Longrightarrow>
   GetPrivateSubnetIDS_tags sub tags privateSubs =
     Return (privateSubs @ replicate (length (filter tag_private tags)) sub)"
  by (induction tags arbitrary: privateSubs)
     (auto simp: tags_valued_def tag_private_def replicate_append_same)

lemma GetPrivateSubnetIDS_subs_valued:
  "list_all (\<lambda>sub. tags_valued (Subnet_Tags sub)) subs \<Longrightarrow>
   GetPrivateSubnetIDS_subs subs privateSubs =
     Return (privateSubs @ concat (map (\<lambda>sub. replicate (private_tags sub) sub) subs))"
  by (induction subs arbitrary: privateSubs)
     (auto simp: GetPrivateSubnetIDS_tags_valued private_tags_def)

section \<open>The pattern\<close>

lemma word_char_private: "list_all word_char ''private''"
  by code_simp

lemma word_private_wordI:
  "list_all word_char w1 \<Longrightarrow> list_all word_char w2 \<Longrightarrow> word_private_word (w1 @ ''private'' @ w2)"
  unfolding word_private_word_def list_ex_iff
  by (rule bexI [where x = "length w1"]) (use word_char_private in simp_all)

lemma MatchString_privateI:
  assumes "list_all word_char w1" "list_all word_char w2"
    and "pre = [] \<or> \<not> word_char (last pre)"
    and "post = [] \<or> \<not> word_char (hd post)"
  shows "MatchString_private (pre @ w1 @ ''private'' @ w2 @ post)"
proof -
  define m where "m = w1 @ ''private'' @ w2"
  define str where "str = pre @ m @ post"
  have m_word: "list_all word_char m"
    using assms(1,2) word_char_private by (simp add: m_def)
  have m_ne: "m \<noteq> []"
    by (simp add: m_def)
  have hd_m: "word_char (hd (m @ post))"
    using m_word m_ne by (cases m) simp_all
  have last_m: "word_char (last (pre @ m))"
    using m_word m_ne by (cases m rule: rev_cases) simp_all
  have b1: "word_boundary (take (length pre) str) (drop (length pre) str)"
    using assms(3) hd_m m_ne by (auto simp: word_boundary_def str_def)
  have tj: "take (length pre + length m) str = pre @ m"
    and dj: "drop (length pre + length m) str = post"
    by (simp_all add: str_def)
  have b2: "word_boundary (take (length pre + length m) str) (drop (length pre + length m) str)"
    unfolding tj dj using assms(4) last_m m_ne by (auto simp: word_boundary_def)
  have "take (length pre + length m - length pre) (drop (length pre) str) = m"
    by (simp add: str_def)
  moreover have "word_private_word m"
    unfolding m_def by (rule word_private_wordI [OF assms(1,2)])
  ultimately have w: "word_private_word (take (length pre + length m - length pre) (drop (length pre) str))"
    by simp
  have "length pre \<in> set [0..<Suc (length str)]"
    and "length pre + length m \<in> set [length pre..<Suc (length str)]"
    by (simp_all add: str_def)
  with b1 b2 w have "MatchString_private str"
    unfolding MatchString_private_def list_ex_iff by blast
  then show ?thesis by (simp add: str_def m_def)
qed

lemma word_suffix_split:
  "\<exists>pre w. ps = pre @ w \<and> list_all word_char w \<and> (pre = [] \<or> \<not> word_char (last pre))"
proof (intro exI conjI)
  show "ps = rev (dropWhile word_char (rev ps)) @ rev (takeWhile word_char (rev ps))"
    by (metis rev_append rev_rev_ident takeWhile_dropWhile_id)
  show "list_all word_char (rev (takeWhile word_char (rev ps)))"
    by (simp add: list_all_iff) (meson set_takeWhileD)
  show "rev (dropWhile word_char (rev ps)) = [] \<or> \<not> word_char (last (rev (dropWhile word_char (rev ps))))"
    by (simp add: last_rev) (metis dropWhile_eq_Nil_conv hd_dropWhile set_rev)
qed

lemma word_prefix_split:
  "\<exists>w post. ss = w @ post \<and> list_all word_char w \<and> (post = [] \<or> \<not> word_char (hd post))"
proof (intro exI conjI)
  show "ss = takeWhile word_char ss @ dropWhile word_char ss" by simp
  show "list_all word_char (takeWhile word_char ss)"
    by (simp add: list_all_iff) (meson set_takeWhileD)
  show "dropWhile word_char ss = [] \<or> \<not> word_char (hd (dropWhile word_char ss))"
    by (metis hd_dropWhile)
qed

lemma sublist_of_drop_prefix: "prefix lit (drop k m) \<Longrightarrow> sublist lit m"
  by (meson prefix_imp_sublist sublist_drop sublist_order.order_trans)

lemma sublist_of_segment: "sublist lit (take n (drop i str)) \<Longrightarrow> sublist lit str"
  by (meson sublist_drop sublist_take sublist_order.order_trans)

lemma word_private_word_sublist: "word_private_word m \<Longrightarrow> sublist ''private'' m"
  unfolding word_private_word_def list_ex_iff
  using sublist_of_drop_prefix by blast

lemma MatchString_private_iff_sublist: "MatchString_private str \<longleftrightarrow> sublist ''private'' str"
proof
  assume "MatchString_private str"
  then obtain i j where "word_private_word (take (j - i) (drop i str))"
    unfolding MatchString_private_def list_ex_iff by blast
  then have "sublist ''private'' (take (j - i) (drop i str))"
    by (rule word_private_word_sublist)
  then show "sublist ''private'' str"
    by (rule sublist_of_segment)
next
  assume "sublist ''private'' str"
  then obtain ps ss where str: "str = ps @ ''private'' @ ss"
    unfolding sublist_def by blast
  obtain pre w1 where ps: "ps = pre @ w1" "list_all word_char w1" "pre = [] \<or> \<not> word_char (last pre)"
    using word_suffix_split by blast
  obtain w2 post where ss: "ss = w2 @ post" "list_all word_char w2" "post = [] \<or> \<not> word_char (hd post)"
    using word_prefix_split by blast
  have "MatchString_private (pre @ w1 @ ''private'' @ w2 @ post)"
    by (rule MatchString_privateI [OF ps(2) ss(2) ps(3) ss(3)])
  then show "MatchString_private str"
    by (simp add: str ps(1) ss(1))
qed

section \<open>The poll\<close>

lemma poll_state_shift:
  "poll_state ec2Svc (Suc k) s =
   poll_state ec2Svc k (Sleep ec2Svc 5 (snd (DescribeSubnets ec2Svc s)))"
  by (induction k) simp_all

lemma recording_simps [simp]:
  "DescribeSubnets (recording ec2Svc) (s, log) =
     (fst (DescribeSubnets ec2Svc s), (snd (DescribeSubnets ec2Svc s), log @ [DescribeSubnetsCall]))"
  "DescribeVpcs (recording ec2Svc) (s, log) =
     (fst (DescribeVpcs ec2Svc s), (snd (DescribeVpcs ec2Svc s), log @ [DescribeVpcsCall]))"
  "DescribeSecurityGroups (recording ec2Svc) (s, log) =
     (fst (DescribeSecurityGroups ec2Svc s),
      (snd (DescribeSecurityGroups ec2Svc s), log @ [DescribeSecurityGroupsCall]))"
  "CreateSecurityGroup (recording ec2Svc) x (s, log) =
     (fst (CreateSecurityGroup ec2Svc x s),
      (snd (CreateSecurityGroup ec2Svc x s), log @ [CreateSecurityGroupCall x]))"
  "AuthorizeSecurityGroupIngress (recording ec2Svc) y (s, log) =
     (fst (AuthorizeSecurityGroupIngress ec2Svc y s),
      (snd (AuthorizeSecurityGroupIngress ec2Svc y s),
       log @ [AuthorizeSecurityGroupIngressCall y]))"
  "Sleep (recording ec2Svc) d (s, log) = (Sleep ec2Svc d s, log @ [SleepCall d])"
  by (simp_all add: recording_def record_call_def)

declare PollImmediate_from.simps [simp del]

lemma concat_replicate_Suc: "concat (replicate k xs) @ xs = concat (replicate (Suc k) xs)"
  by (induction k) simp_all

lemma poll_state_recording:
  "poll_state (recording ec2Svc) k (s, log) =
     (poll_state ec2Svc k s, log @ concat (replicate k [DescribeSubnetsCall, SleepCall 5]))"
  by (induction k) (simp_all add: concat_replicate_Suc del: replicate.simps(2))

text \<open>One step of the poll in getSubnets.\<close>

lemma poll_step_fail:
  assumes "DescribeSubnets ec2Svc s = (Inl err, s1)"
  shows "PollImmediate_from elapsed (\<lambda>d (subs, s). (subs, Sleep ec2Svc d s)) 5 300
           (getSubnets_condition ec2Svc) (subs, s) =
         (if 300 < elapsed + 5 then (Some ErrWaitTimeout, (subs, s1))
          else PollImmediate_from (elapsed + 5) (\<lambda>d (subs, s). (subs, Sleep ec2Svc d s)) 5 300
                 (getSubnets_condition ec2Svc) (subs, Sleep ec2Svc 5 s1))"
  by (subst PollImmediate_from.simps) (simp add: getSubnets_condition_def assms)

lemma poll_step_ok:
  assumes "DescribeSubnets ec2Svc s = (Inr items, s1)"
  shows "PollImmediate_from elapsed (\<lambda>d (subs, s). (subs, Sleep ec2Svc d s)) 5 300
           (getSubnets_condition ec2Svc) (subs, s) = (None, (items, s1))"
  by (subst PollImmediate_from.simps) (simp add: getSubnets_condition_def assms)

lemma poll_succeeds:
  assumes "elapsed + 5 * k \<le> 300"
    and "\<forall>j<k. isl (fst (DescribeSubnets ec2Svc (poll_state ec2Svc j s)))"
    and "DescribeSubnets ec2Svc (poll_state ec2Svc k s) = (Inr items, s')"
  shows "PollImmediate_from elapsed (\<lambda>d (subs, s). (subs, Sleep ec2Svc d s)) 5 300
           (getSubnets_condition ec2Svc) (subs, s) = (None, (items, s'))"
  using assms
proof (induction k arbitrary: elapsed s)
  case 0
  then show ?case by (simp add: poll_step_ok)
next
  case (Suc k)
  from Suc.prems(2) have "isl (fst (DescribeSubnets ec2Svc (poll_state ec2Svc 0 s)))"
    by blast
  then obtain err s1 where d: "DescribeSubnets ec2Svc s = (Inl err, s1)"
    by (cases "DescribeSubnets ec2Svc s") (auto simp: isl_def)
  let ?s = "Sleep ec2Svc 5 s1"
  have shift: "poll_state ec2Svc (Suc j) s = poll_state ec2Svc j ?s" for j
    by (simp add: poll_state_shift d del: poll_state.simps)
  have "\<forall>j<k. isl (fst (DescribeSubnets ec2Svc (poll_state ec2Svc j ?s)))"
    using Suc.prems(2) shift by (metis Suc_less_eq)
  moreover have "DescribeSubnets ec2Svc (poll_state ec2Svc k ?s) = (Inr items, s')"
    using Suc.prems(3) shift by metis
  moreover have "elapsed + 5 + 5 * k \<le> 300"
    using Suc.prems(1) by simp
  ultimately have "PollImmediate_from (elapsed + 5) (\<lambda>d (subs, s). (subs, Sleep ec2Svc d s)) 5 300
           (getSubnets_condition ec2Svc) (subs, ?s) = (None, (items, s'))"
    by (rule Suc.IH [rotated 1])
  moreover have "\<not> 300 < elapsed + 5"
    using Suc.prems(1) by simp
  ultimately show ?case
    by (simp add: poll_step_fail [OF d])
qed

lemma poll_times_out:
  assumes "elapsed + 5 * k \<le> 300" "300 < elapsed + 5 * Suc k"
    and "\<forall>j\<le>k. isl (fst (DescribeSubnets ec2Svc (poll_state ec2Svc j s)))"
  shows "PollImmediate_from elapsed (\<lambda>d (subs, s). (subs, Sleep ec2Svc d s)) 5 300
           (getSubnets_condition ec2Svc) (subs, s) =
         (Some ErrWaitTimeout, (subs, snd (DescribeSubnets ec2Svc (poll_state ec2Svc k s))))"
  using assms
proof (induction k arbitrary: elapsed s)
  case 0
  then have "isl (fst (DescribeSubnets ec2Svc s))" by simp
  then obtain err s1 where d: "DescribeSubnets ec2Svc s = (Inl err, s1)"
    by (cases "DescribeSubnets ec2Svc s") (auto simp: isl_def)
  show ?case using "0.prems"(2) by (simp add: poll_step_fail [OF d] d)
next
  case (Suc k)
  from Suc.prems(3) have "isl (fst (DescribeSubnets ec2Svc (poll_state ec2Svc 0 s)))"
    by blast
  then obtain err s1 where d: "DescribeSubnets ec2Svc s = (Inl err, s1)"
    by (cases "DescribeSubnets ec2Svc s") (auto simp: isl_def)
  let ?s = "Sleep ec2Svc 5 s1"
  have shift: "poll_state ec2Svc (Suc j) s = poll_state ec2Svc j ?s" for j
    by (simp add: poll_state_shift d del: poll_state.simps)
  have "\<forall>j\<le>k. isl (fst (DescribeSubnets ec2Svc (poll_state ec2Svc j ?s)))"
    using Suc.prems(3) shift by (metis Suc_le_mono)
  moreover have "elapsed + 5 + 5 * k \<le> 300" "300 < elapsed + 5 + 5 * Suc k"
    using Suc.prems(1,2) by simp_all
  ultimately have "PollImmediate_from (elapsed + 5) (\<lambda>d (subs, s). (subs, Sleep ec2Svc d s)) 5 300
           (getSubnets_condition ec2Svc) (subs, ?s) =
         (Some ErrWaitTimeout, (subs, snd (DescribeSubnets ec2Svc (poll_state ec2Svc k ?s))))"
    by (intro Suc.IH)
  moreover have "\<not> 300 < elapsed + 5"
    using Suc.prems(1) by simp
  ultimately show ?case
    by (simp add: poll_step_fail [OF d] shift del: poll_state.simps)
qed

lemma getSubnets_succeeds:
  assumes "k \<le> 60"
    and "\<forall>j<k. isl (fst (DescribeSubnets ec2Svc (poll_state ec2Svc j s)))"
    and "DescribeSubnets ec2Svc (poll_state ec2Svc k s) = (Inr items, s')"
  shows "getSubnets ec2Svc s = (Return items, s')"
proof -
  have "0 + 5 * k \<le> 300" using assms(1) by simp
  from poll_succeeds [OF this assms(2,3)] show ?thesis
    by (simp add: getSubnets_def PollImmediate_def)
qed

lemma getSubnets_times_out:
  assumes "\<forall>j\<le>60. isl (fst (DescribeSubnets ec2Svc (poll_state ec2Svc j s)))"
  shows "getSubnets ec2Svc s =
         (Error ErrWaitTimeout, snd (DescribeSubnets ec2Svc (poll_state ec2Svc 60 s)))"
proof -
  have "0 + 5 * 60 \<le> (300::nat)" "(300::nat) < 0 + 5 * Suc 60" by simp_all
  from poll_times_out [OF this assms] show ?thesis
    by (simp add: getSubnets_def PollImmediate_def)
qed

lemma poll_error_is_timeout:
  "PollImmediate_from elapsed sleep interval timeout (getSubnets_condition ec2Svc) t = (Some err, t')
   \<Longrightarrow> err = ErrWaitTimeout"
proof (induction elapsed sleep interval timeout "getSubnets_condition ec2Svc" t
    rule: PollImmediate_from.induct)
  case (1 elapsed sleep interval timeout t)
  show ?case
  proof -
    show ?thesis
    proof (cases "fst (DescribeSubnets ec2Svc (snd t))")
      case (Inl e)
      then have c: "getSubnets_condition ec2Svc t = ((False, None), (fst t, snd (DescribeSubnets ec2Svc (snd t))))"
        by (cases t; cases "DescribeSubnets ec2Svc (snd t)") (simp add: getSubnets_condition_def)
      show ?thesis
      proof (cases "interval = 0 \<or> timeout < elapsed + interval")
        case True
        with "1.prems" c show ?thesis
          by (subst (asm) PollImmediate_from.simps) auto
      next
        case False
        with "1.prems" c have "PollImmediate_from (elapsed + interval) sleep interval timeout
             (getSubnets_condition ec2Svc)
             (sleep interval (fst t, snd (DescribeSubnets ec2Svc (snd t)))) = (Some err, t')"
          by (subst (asm) PollImmediate_from.simps) auto
        with "1.hyps" [OF c [symmetric] refl refl refl False] show ?thesis
          by simp
      qed
    next
      case (Inr items)
      then have c: "getSubnets_condition ec2Svc t = ((True, None), (items, snd (DescribeSubnets ec2Svc (snd t))))"
        by (cases t; cases "DescribeSubnets ec2Svc (snd t)") (simp add: getSubnets_condition_def)
      with "1.prems" show ?thesis
        by (subst (asm) PollImmediate_from.simps) auto
    qed
  qed
qed

lemma getSubnets_result:
  "(case fst (getSubnets ec2Svc s) of
      Return items \<Rightarrow> True | Error err \<Rightarrow> err = ErrWaitTimeout | Panic \<Rightarrow> False)"
  by (auto simp: getSubnets_def PollImmediate_def split: prod.splits option.splits
      dest: poll_error_is_timeout)

section \<open>The fixture\<close>

lemma fake_simps [simp]:
  "DescribeSubnets fake s =
     (if fake_now s < fake_ready_at s then (Inl AuthFailure, s) else (Inr (fake_Subnets s), s))"
  "DescribeVpcs fake s =
     (if fake_now s < fake_ready_at s then (Inl AuthFailure, s) else (Inr (fake_Vpcs s), s))"
  "DescribeSecurityGroups fake s =
     (if fake_now s < fake_ready_at s then (Inl AuthFailure, s)
      else (Inr (fake_SecurityGroups s), s))"
  "CreateSecurityGroup fake x s =
     (if fake_now s < fake_ready_at s then (Inl AuthFailure, s) else (Inr (), fake_create x s))"
  "AuthorizeSecurityGroupIngress fake y s =
     (if fake_now s < fake_ready_at s then (Inl AuthFailure, s)
      else (Inr (), fake_authorize y s))"
  "Sleep fake d s = s\<lparr>fake_now := fake_now s + d\<rparr>"
  by (simp_all add: fake_def fake_call_def)

lemma example_provider_simps [simp]:
  "fake_now example_provider = 0"
  "fake_ready_at example_provider = 0"
  "fake_Vpcs example_provider = [vpc_bar_old, vpc_foo, vpc_bar]"
  "fake_Subnets example_provider = [subnet_private_a, subnet_public_a, subnet_twice, subnet_foo]"
  "fake_SecurityGroups example_provider = []"
  by (simp_all add: example_provider_def)

lemma example_client_live [simp]:
  "GetClusterID example_client live_ctx = Inr ''bar''"
  "BuildInfraName example_client live_ctx defaultSecurityGroupPostfix
     (DefaultAwsIdentifierLength example_client) = Inr ''bar-security-group''"
  by (simp_all add: example_client_def live_ctx_def defaultSecurityGroupPostfix_def)

lemma example_vpcs_match [simp]:
  "vpc_matches ''bar'' vpc_bar" "vpc_matches ''bar'' vpc_bar_old" "\<not> vpc_matches ''bar'' vpc_foo"
  "tags_valued (Vpc_Tags vpc_bar)" "tags_valued (Vpc_Tags vpc_bar_old)"
  "tags_valued (Vpc_Tags vpc_foo)"
  by (simp_all add: vpc_matches_def tags_valued_def vpc_bar_def vpc_bar_old_def vpc_foo_def
      name_tag_def)

lemma poll_state_fake: "poll_state fake j s = s\<lparr>fake_now := fake_now s + 5 * j\<rparr>"
  by (induction j) (simp_all split: if_splits)

lemma recording_poll_fails:
  "isl (fst (DescribeSubnets (recording ec2Svc) (poll_state (recording ec2Svc) j (s, log)))) =
   isl (fst (DescribeSubnets ec2Svc (poll_state ec2Svc j s)))"
  by (simp add: poll_state_recording)

lemma recording_poll_answer:
  "DescribeSubnets ec2Svc (poll_state ec2Svc k s) = (r, s') \<Longrightarrow>
   DescribeSubnets (recording ec2Svc) (poll_state (recording ec2Svc) k (s, [])) =
     (r, (s', poll_calls k))"
  by (simp add: poll_state_recording poll_calls_def)

lemma getSubnets_fake_ready:
  "\<not> fake_now s < fake_ready_at s \<Longrightarrow> getSubnets fake s = (Return (fake_Subnets s), s)"
  by (rule getSubnets_succeeds [where k = 0]) simp_all

lemma example_subnets_simps [simp]:
  "Subnet_VpcId subnet_private_a = Some ''vpc-bar''"
  "Subnet_VpcId subnet_public_a = Some ''vpc-bar''"
  "Subnet_VpcId subnet_twice = Some ''vpc-bar''"
  "Subnet_VpcId subnet_foo = Some ''vpc-foo''"
  "Subnet_SubnetId subnet_private_a = Some ''subnet-a''"
  "Subnet_SubnetId subnet_public_a = Some ''subnet-b''"
  "Subnet_SubnetId subnet_twice = Some ''subnet-c''"
  "Subnet_SubnetId subnet_foo = Some ''subnet-d''"
  "Vpc_VpcId vpc_bar = Some ''vpc-bar''"
  "Vpc_CidrBlock vpc_bar = Some ''10.0.1.0/16''"
  by (simp_all add: subnet_private_a_def subnet_public_a_def subnet_twice_def subnet_foo_def
      vpc_bar_def)

lemma GetVPCSubnets_listed:
  assumes "getSubnets ec2Svc s = (Return subs, s1)"
    and "DescribeVpcs ec2Svc s1 = (Inr vpcs, s2)"
    and "GetClusterID c ctx = Inr clusterID"
    and "list_all (\<lambda>vpc. tags_valued (Vpc_Tags vpc)) vpcs"
    and "filter (vpc_matches clusterID) vpcs \<noteq> []"
    and "Vpc_VpcId (last (filter (vpc_matches clusterID) vpcs)) = Some vpcID"
    and "list_all (\<lambda>sub. Subnet_VpcId sub \<noteq> None) subs"
  shows "GetVPCSubnets ctx c ec2Svc s =
     (if filter (\<lambda>sub. Subnet_VpcId sub = Some vpcID) subs = []
      then Error (New ''error, unable to find subnets associated with cluster vpc'')
      else Return (filter (\<lambda>sub. Subnet_VpcId sub = Some vpcID) subs), s2)"
  using assms(1,5)
  by (simp add: GetVPCSubnets_def getVpc_listed [OF assms(2,3,4)]
      GetVPCSubnets_loop_valued [OF assms(6,7)])

lemma private_ids_simps [simp]:
  "private_ids [] = []"
  "private_ids (sub # subs) =
     replicate (private_tags sub) (Subnet_SubnetId sub) @ private_ids subs"
  by (simp_all add: private_ids_def)

lemma map_SubnetId_replicated:
  "map Subnet_SubnetId (concat (map (\<lambda>sub. replicate (private_tags sub) sub) subs)) =
   private_ids subs"
  by (induction subs) simp_all

lemma private_tags_pos: "0 < private_tags sub \<longleftrightarrow> subnet_private sub"
  by (simp add: private_tags_def subnet_private_def list_ex_iff filter_empty_conv)

lemma set_private_ids:
  "set (private_ids subs) = Subnet_SubnetId ` {sub \<in> set subs. subnet_private sub}"
  by (induction subs) (auto simp: private_tags_pos [symmetric])

lemma private_ids_empty: "private_ids subs = [] \<longleftrightarrow> \<not> list_ex subnet_private subs"
proof -
  have "private_ids subs = [] \<longleftrightarrow> set (private_ids subs) = {}"
    by simp
  also have "\<dots> \<longleftrightarrow> \<not> list_ex subnet_private subs"
    unfolding set_private_ids by (auto simp: list_ex_iff)
  finally show ?thesis .
qed

lemma GetPrivateSubnetIDS_listed:
  assumes "GetVPCSubnets ctx c ec2Svc s = (Return subs, s')"
    and "list_all (\<lambda>sub. tags_valued (Subnet_Tags sub)) subs"
  shows "GetPrivateSubnetIDS ctx c ec2Svc s =
     (if private_ids subs = [] then Error (New ''failed to get list of private subnet ids'')
      else Return (private_ids subs), s')"
  using assms(1)
  by (simp add: GetPrivateSubnetIDS_def GetPrivateSubnetIDS_subs_valued [OF assms(2)]
      map_SubnetId_replicated)

lemma count_list_replicate_eq: "count_list (replicate n y) x = (if x = y then n else 0)"
  by (induction n) auto

lemma count_list_absent: "x \<notin> set xs \<Longrightarrow> count_list xs x = 0"
  by (induction xs) auto

lemma count_list_appended: "count_list (xs @ ys) x = count_list xs x + count_list ys x"
  by (induction xs) simp_all

lemma count_private_ids:
  "distinct (map Subnet_SubnetId subs) \<Longrightarrow> sub \<in> set subs \<Longrightarrow>
   count_list (private_ids subs) (Subnet_SubnetId sub) = private_tags sub"
proof (induction subs)
  case Nil
  then show ?case by simp
next
  case (Cons a subs)
  have absent: "Subnet_SubnetId a \<notin> set (private_ids subs)"
    using Cons.prems(1) by (auto simp: set_private_ids)
  show ?case
  proof (cases "sub = a")
    case True
    then show ?thesis
      using absent by (simp add: count_list_appended count_list_replicate_eq count_list_absent)
  next
    case False
    with Cons.prems have "sub \<in> set subs" "Subnet_SubnetId sub \<noteq> Subnet_SubnetId a"
      by (auto simp: image_iff)
    with Cons show ?thesis
      by (simp add: count_list_appended count_list_replicate_eq)
  qed
qed

lemma distinct_replicate_le: "distinct (replicate n x) \<Longrightarrow> n \<le> 1"
  by (cases n; cases "n - 1") auto

lemma distinct_private_ids:
  "distinct (private_ids subs) \<Longrightarrow> sub \<in> set subs \<Longrightarrow> private_tags sub \<le> 1"
  by (induction subs) (auto dest: distinct_replicate_le)

lemma example_values_private [simp]:
  "MatchString_private ''cluster-private-a''"
  "\<not> MatchString_private ''cluster-public-a''"
  "MatchString_private ''cluster-private-c''"
  "MatchString_private ''private''"
  "MatchString_private ''foo-private-a''"
  by (simp_all add: MatchString_private_iff_sublist sublist_code)

lemma example_subnets_private [simp]:
  "private_tags subnet_private_a = 1" "private_tags subnet_public_a = 0"
  "private_tags subnet_twice = 2" "private_tags subnet_foo = 1"
  "subnet_private subnet_private_a" "\<not> subnet_private subnet_public_a"
  "subnet_private subnet_twice" "subnet_private subnet_foo"
  "tags_valued (Subnet_Tags subnet_private_a)" "tags_valued (Subnet_Tags subnet_public_a)"
  "tags_valued (Subnet_Tags subnet_twice)" "tags_valued (Subnet_Tags subnet_foo)"
  by (simp_all add: private_tags_def subnet_private_def tag_private_def tags_valued_def
      subnet_private_a_def subnet_public_a_def subnet_twice_def subnet_foo_def name_tag_def)

lemma GetVPCSubnets_fake_bar:
  assumes "\<not> fake_now s < fake_ready_at s"
    and "fake_Vpcs s = [vpc_bar_old, vpc_foo, vpc_bar]"
    and "list_all (\<lambda>sub. Subnet_VpcId sub \<noteq> None) (fake_Subnets s)"
  shows "GetVPCSubnets live_ctx example_client fake s =
     (if filter (\<lambda>sub. Subnet_VpcId sub = Some ''vpc-bar'') (fake_Subnets s) = []
      then Error (New ''error, unable to find subnets associated with cluster vpc'')
      else Return (filter (\<lambda>sub. Subnet_VpcId sub = Some ''vpc-bar'') (fake_Subnets s)), s)"
  by (rule GetVPCSubnets_listed [where vpcs = "[vpc_bar_old, vpc_foo, vpc_bar]"
        and clusterID = "''bar''" and ?s1.0 = s])
     (use assms in \<open>simp_all add: getSubnets_fake_ready\<close>)

section \<open>The security group\<close>

lemma permissions_in_place_iff: "permissions_in_place perms p \<longleftrightarrow> p \<in> set perms"
  by (induction perms) auto

lemma getSecurityGroup_loop_absent:
  "list_all (\<lambda>sec. SecurityGroup_GroupName sec \<noteq> None
                  \<and> SecurityGroup_GroupName sec \<noteq> Some secName) secGroups \<Longrightarrow>
   getSecurityGroup_loop secGroups secName = Return None"
  by (induction secGroups) auto

lemma getSecurityGroup_loop_first:
  "list_all (\<lambda>sec. SecurityGroup_GroupName sec \<noteq> None
                  \<and> SecurityGroup_GroupName sec \<noteq> Some secName) pre \<Longrightarrow>
   SecurityGroup_GroupName foundSecGroup = Some secName \<Longrightarrow>
   getSecurityGroup_loop (pre @ foundSecGroup # post) secName = Return (Some foundSecGroup)"
  by (induction pre) auto

lemma getSecurityGroup_loop_None:
  "getSecurityGroup_loop secGroups secName = Return None \<Longrightarrow>
   \<not> list_ex (\<lambda>sec. SecurityGroup_GroupName sec = Some secName) secGroups"
  by (induction secGroups) (auto split: option.splits if_splits)

lemma getSecurityGroup_loop_Some:
  "getSecurityGroup_loop secGroups secName = Return (Some sec) \<Longrightarrow>
   sec \<in> set secGroups \<and> SecurityGroup_GroupName sec = Some secName"
  by (induction secGroups) (auto split: option.splits if_splits)

lemma getSecurityGroup_loop_no_error: "getSecurityGroup_loop secGroups secName \<noteq> Error err"
  by (induction secGroups) (auto split: option.splits)

lemma getSecurityGroup_loop_map:
  assumes "\<And>sec. SecurityGroup_GroupName (f sec) = SecurityGroup_GroupName sec"
  shows "getSecurityGroup_loop (map f secGroups) secName =
     (case getSecurityGroup_loop secGroups secName of
        Return r \<Rightarrow> Return (map_option f r) | Error err \<Rightarrow> Error err | Panic \<Rightarrow> Panic)"
  by (induction secGroups) (auto simp: assms split: option.splits)

lemma getSecurityGroup_loop_snoc:
  "getSecurityGroup_loop secGroups secName = Return None \<Longrightarrow>
   SecurityGroup_GroupName sec = Some secName \<Longrightarrow>
   getSecurityGroup_loop (secGroups @ [sec]) secName = Return (Some sec)"
  by (induction secGroups) (auto split: option.splits if_splits)

section \<open>Runs against the recording provider\<close>

lemma getVpc_recording:
  "getVpc ctx c (recording ec2Svc) (s, log) =
     (fst (getVpc ctx c ec2Svc s), (snd (getVpc ctx c ec2Svc s), log @ [DescribeVpcsCall]))"
  by (simp add: getVpc_def split: prod.splits sum.splits result.splits option.splits)

lemma GetCidr_recording:
  "GetCidr ctx c (recording ec2Svc) (s, log) =
     (fst (GetCidr ctx c ec2Svc s), (snd (GetCidr ctx c ec2Svc s), log @ [DescribeVpcsCall]))"
  by (simp add: GetCidr_def getVpc_recording split: prod.splits result.splits option.splits)

lemma getSecurityGroup_recording:
  "getSecurityGroup (recording ec2Svc) secName (s, log) =
     (fst (getSecurityGroup ec2Svc secName s),
      (snd (getSecurityGroup ec2Svc secName s), log @ [DescribeSecurityGroupsCall]))"
  by (simp add: getSecurityGroup_def split: prod.splits sum.splits)

text \<open>The three ways in which SetupSecurityGroup goes on after the two listings.\<close>

lemma SetupSecurityGroup_creates:
  assumes "GetClusterID c ctx = Inr clusterID"
    and "BuildInfraName c ctx defaultSecurityGroupPostfix (DefaultAwsIdentifierLength c) =
           Inr secName"
    and "GetCidr ctx c ec2Svc s = (Return (vpcID, cidr), s1)"
    and "getSecurityGroup ec2Svc secName s1 = (Return None, s2)"
    and "CreateSecurityGroup ec2Svc
           \<lparr>Create_Description = Some (''security group for cluster '' @ clusterID),
            Create_GroupName = Some secName, Create_VpcId = Some vpcID\<rparr> s2 = (r, s3)"
  shows "SetupSecurityGroup ctx c ec2Svc s =
     (case r of Inl err \<Rightarrow> Error (Wrap err ''error creating security group'')
              | Inr u \<Rightarrow> Return (), s3)"
  using assms by (simp add: SetupSecurityGroup_def split: sum.splits)

lemma SetupSecurityGroup_in_place:
  assumes "GetClusterID c ctx = Inr clusterID"
    and "BuildInfraName c ctx defaultSecurityGroupPostfix (DefaultAwsIdentifierLength c) =
           Inr secName"
    and "GetCidr ctx c ec2Svc s = (Return (vpcID, cidr), s1)"
    and "getSecurityGroup ec2Svc secName s1 = (Return (Some foundSecGroup), s2)"
    and "ipPermission cidr \<in> set (SecurityGroup_IpPermissions foundSecGroup)"
  shows "SetupSecurityGroup ctx c ec2Svc s = (Return (), s2)"
  using assms by (simp add: SetupSecurityGroup_def permissions_in_place_iff)

lemma SetupSecurityGroup_authorizes:
  assumes "GetClusterID c ctx = Inr clusterID"
    and "BuildInfraName c ctx defaultSecurityGroupPostfix (DefaultAwsIdentifierLength c) =
           Inr secName"
    and "GetCidr ctx c ec2Svc s = (Return (vpcID, cidr), s1)"
    and "getSecurityGroup ec2Svc secName s1 = (Return (Some foundSecGroup), s2)"
    and "ipPermission cidr \<notin> set (SecurityGroup_IpPermissions foundSecGroup)"
    and "SecurityGroup_GroupId foundSecGroup = Some groupId"
    and "AuthorizeSecurityGroupIngress ec2Svc
           \<lparr>Authorize_GroupId = Some groupId,
            Authorize_IpPermissions = [ipPermission cidr]\<rparr> s2 = (r, s3)"
  shows "SetupSecurityGroup ctx c ec2Svc s =
     (case r of Inl err \<Rightarrow> Error (Wrap err ''error authorizing security group ingress'')
              | Inr u \<Rightarrow> Return (), s3)"
  using assms by (simp add: SetupSecurityGroup_def permissions_in_place_iff split: sum.splits)

lemma GetCidr_fake_bar:
  assumes "\<not> fake_now s < fake_ready_at s"
    and "fake_Vpcs s = [vpc_bar_old, vpc_foo, vpc_bar]"
  shows "GetCidr live_ctx example_client fake s = (Return (''vpc-bar'', ''10.0.1.0/16''), s)"
proof -
  have "getVpc live_ctx example_client fake s = (Return (Some vpc_bar), s)"
    using assms
    by (subst getVpc_listed [where vpcs = "[vpc_bar_old, vpc_foo, vpc_bar]"
          and clusterID = "''bar''" and s' = s]) simp_all
  then show ?thesis
    by (simp add: GetCidr_def)
qed

lemma example_groups_simps [simp]:
  "SecurityGroup_GroupName group_default = Some ''default''"
  "SecurityGroup_GroupId group_default = Some ''sg-0''"
  "SecurityGroup_IpPermissions group_default = []"
  "SecurityGroup_GroupName (group_bar perms) = Some ''bar-security-group''"
  "SecurityGroup_GroupId (group_bar perms) = Some ''sg-1''"
  "SecurityGroup_IpPermissions (group_bar perms) = perms"
  by (simp_all add: group_default_def group_bar_def)

lemma ipPermission_inject [simp]: "ipPermission a = ipPermission b \<longleftrightarrow> a = b"
  by (auto simp: ipPermission_def)

section \<open>SetupSecurityGroup on the fixture\<close>

lemma getVpc_fake_state: "snd (getVpc ctx c fake s) = s"
  by (simp add: getVpc_def split: sum.splits result.splits option.splits)

lemma GetCidr_fake_state: "snd (GetCidr ctx c fake s) = s"
  using getVpc_fake_state [of ctx c s]
  by (auto simp: GetCidr_def split: prod.splits result.splits option.splits)

lemma getVpc_fake_same:
  "fake_Vpcs t = fake_Vpcs s \<Longrightarrow>
   (fake_now t < fake_ready_at t) = (fake_now s < fake_ready_at s) \<Longrightarrow>
   fst (getVpc ctx c fake t) = fst (getVpc ctx c fake s)"
  by (simp add: getVpc_def split: sum.splits result.splits option.splits)

lemma GetCidr_fake_same:
  assumes "fake_Vpcs t = fake_Vpcs s"
    and "(fake_now t < fake_ready_at t) = (fake_now s < fake_ready_at s)"
  shows "fst (GetCidr ctx c fake t) = fst (GetCidr ctx c fake s)"
  using getVpc_fake_same [OF assms, of ctx c]
  by (auto simp: GetCidr_def split: prod.splits result.splits option.splits)

lemma GetCidr_fake_ready:
  "GetCidr ctx c fake s = (Return x, s1) \<Longrightarrow> \<not> fake_now s < fake_ready_at s"
  by (auto simp: GetCidr_def getVpc_def split: prod.splits result.splits option.splits if_splits)

lemma getSecurityGroup_fake:
  "\<not> fake_now s < fake_ready_at s \<Longrightarrow>
   getSecurityGroup fake secName s =
     (getSecurityGroup_loop (fake_SecurityGroups s) secName, s)"
  by (simp add: getSecurityGroup_def)

lemma fake_authorize_group_name [simp]:
  "SecurityGroup_GroupName (fake_authorize_group x sec) = SecurityGroup_GroupName sec"
  by (simp add: fake_authorize_group_def)

lemma fake_authorize_simps [simp]:
  "fake_Vpcs (fake_authorize x s) = fake_Vpcs s"
  "fake_now (fake_authorize x s) = fake_now s"
  "fake_ready_at (fake_authorize x s) = fake_ready_at s"
  "fake_SecurityGroups (fake_authorize x s) =
     map (fake_authorize_group x) (fake_SecurityGroups s)"
  by (simp_all add: fake_authorize_def)

lemma fake_create_simps [simp]:
  "fake_Vpcs (fake_create y s) = fake_Vpcs s"
  "fake_now (fake_create y s) = fake_now s"
  "fake_ready_at (fake_create y s) = fake_ready_at s"
  by (simp_all add: fake_create_def)

text \<open>What a successful run did to the fixture.\<close>

lemma SetupSecurityGroup_fake_success:
  assumes "fst (SetupSecurityGroup ctx c fake s) = Return ()"
    and "BuildInfraName c ctx defaultSecurityGroupPostfix (DefaultAwsIdentifierLength c) =
           Inr secName"
  shows "\<exists>clusterID vpcID cidr.
     GetClusterID c ctx = Inr clusterID
   \<and> \<not> fake_now s < fake_ready_at s
   \<and> GetCidr ctx c fake s = (Return (vpcID, cidr), s)
   \<and> ((getSecurityGroup_loop (fake_SecurityGroups s) secName = Return None
        \<and> snd (SetupSecurityGroup ctx c fake s) =
            fake_create \<lparr>Create_Description = Some (''security group for cluster '' @ clusterID),
                        Create_GroupName = Some secName, Create_VpcId = Some vpcID\<rparr> s)
     \<or> (\<exists>sec. getSecurityGroup_loop (fake_SecurityGroups s) secName = Return (Some sec)
        \<and> ipPermission cidr \<in> set (SecurityGroup_IpPermissions sec)
        \<and> snd (SetupSecurityGroup ctx c fake s) = s)
     \<or> (\<exists>sec groupId. getSecurityGroup_loop (fake_SecurityGroups s) secName = Return (Some sec)
        \<and> ipPermission cidr \<notin> set (SecurityGroup_IpPermissions sec)
        \<and> SecurityGroup_GroupId sec = Some groupId
        \<and> snd (SetupSecurityGroup ctx c fake s) =
            fake_authorize \<lparr>Authorize_GroupId = Some groupId,
                            Authorize_IpPermissions = [ipPermission cidr]\<rparr> s))"
proof -
  from assms obtain clusterID where id: "GetClusterID c ctx = Inr clusterID"
    by (cases "GetClusterID c ctx") (simp_all add: SetupSecurityGroup_def)
  from assms id obtain vpcID cidr s1 where
    cidr0: "GetCidr ctx c fake s = (Return (vpcID, cidr), s1)"
    by (cases "GetCidr ctx c fake s"; cases "fst (GetCidr ctx c fake s)")
       (auto simp: SetupSecurityGroup_def)
  have s1: "s1 = s"
    using GetCidr_fake_state [of ctx c s] cidr0 by simp
  have ready: "\<not> fake_now s < fake_ready_at s"
    using cidr0 by (rule GetCidr_fake_ready)
  have cidr: "GetCidr ctx c fake s = (Return (vpcID, cidr), s)"
    using cidr0 s1 by simp
  note sg = getSecurityGroup_fake [OF ready, of secName]
  show ?thesis
  proof (cases "getSecurityGroup_loop (fake_SecurityGroups s) secName")
    case (Return found)
    show ?thesis
    proof (cases found)
      case None
      with Return have "snd (SetupSecurityGroup ctx c fake s) =
            fake_create \<lparr>Create_Description = Some (''security group for cluster '' @ clusterID),
                        Create_GroupName = Some secName, Create_VpcId = Some vpcID\<rparr> s"
        using id assms(2) cidr sg ready by (simp add: SetupSecurityGroup_def)
      with Return None id ready cidr show ?thesis by blast
    next
      case (Some sec)
      show ?thesis
      proof (cases "ipPermission cidr \<in> set (SecurityGroup_IpPermissions sec)")
        case True
        with Return Some have "snd (SetupSecurityGroup ctx c fake s) = s"
          using id assms(2) cidr sg
          by (simp add: SetupSecurityGroup_def permissions_in_place_iff)
        with Return Some True id ready cidr show ?thesis by blast
      next
        case False
        with Return Some assms(1) obtain groupId where
          gid: "SecurityGroup_GroupId sec = Some groupId"
          using id assms(2) cidr sg
          by (cases "SecurityGroup_GroupId sec")
             (simp_all add: SetupSecurityGroup_def permissions_in_place_iff)
        with Return Some False have "snd (SetupSecurityGroup ctx c fake s) =
            fake_authorize \<lparr>Authorize_GroupId = Some groupId,
                            Authorize_IpPermissions = [ipPermission cidr]\<rparr> s"
          using id assms(2) cidr sg ready
          by (simp add: SetupSecurityGroup_def permissions_in_place_iff)
        with Return Some False gid id ready cidr show ?thesis by blast
      qed
    qed
  next
    case (Error err)
    then show ?thesis
      using getSecurityGroup_loop_no_error by blast
  next
    case Panic
    with assms(1) show ?thesis
      using id assms(2) cidr sg by (simp add: SetupSecurityGroup_def)
  qed
qed

lemma mutating_calls_simps [simp]:
  "mutating_calls [] = []"
  "mutating_calls (DescribeSubnetsCall # cs) = mutating_calls cs"
  "mutating_calls (DescribeVpcsCall # cs) = mutating_calls cs"
  "mutating_calls (DescribeSecurityGroupsCall # cs) = mutating_calls cs"
  "mutating_calls (SleepCall d # cs) = mutating_calls cs"
  "mutating_calls (CreateSecurityGroupCall y # cs) = CreateSecurityGroupCall y # mutating_calls cs"
  "mutating_calls (AuthorizeSecurityGroupIngressCall x # cs) =
     AuthorizeSecurityGroupIngressCall x # mutating_calls cs"
  by (simp_all add: mutating_calls_def)

text \<open>The next run, when the group has the permission, and when it has not.\<close>

lemma SetupSecurityGroup_fake_converged:
  assumes "GetClusterID c ctx = Inr clusterID"
    and "BuildInfraName c ctx defaultSecurityGroupPostfix (DefaultAwsIdentifierLength c) =
           Inr secName"
    and "\<not> fake_now t < fake_ready_at t"
    and "GetCidr ctx c fake t = (Return (vpcID, cidr), t)"
    and "getSecurityGroup_loop (fake_SecurityGroups t) secName = Return (Some sec)"
    and "ipPermission cidr \<in> set (SecurityGroup_IpPermissions sec)"
  shows "SetupSecurityGroup ctx c (recording fake) (t, []) =
     (Return (), (t, [DescribeVpcsCall, DescribeSecurityGroupsCall]))"
proof -
  have "GetCidr ctx c (recording fake) (t, []) = (Return (vpcID, cidr), (t, [DescribeVpcsCall]))"
    by (simp add: GetCidr_recording assms(4))
  moreover have "getSecurityGroup (recording fake) secName (t, [DescribeVpcsCall]) =
      (Return (Some sec), (t, [DescribeVpcsCall, DescribeSecurityGroupsCall]))"
    by (simp add: getSecurityGroup_recording getSecurityGroup_fake [OF assms(3)] assms(5))
  ultimately show ?thesis
    using assms(6) by (rule SetupSecurityGroup_in_place [OF assms(1,2)])
qed

lemma SetupSecurityGroup_fake_defers:
  assumes "GetClusterID c ctx = Inr clusterID"
    and "BuildInfraName c ctx defaultSecurityGroupPostfix (DefaultAwsIdentifierLength c) =
           Inr secName"
    and "\<not> fake_now t < fake_ready_at t"
    and "GetCidr ctx c fake t = (Return (vpcID, cidr), t)"
    and "getSecurityGroup_loop (fake_SecurityGroups t) secName = Return (Some sec)"
    and "ipPermission cidr \<notin> set (SecurityGroup_IpPermissions sec)"
    and "SecurityGroup_GroupId sec = Some groupId"
  shows "SetupSecurityGroup ctx c (recording fake) (t, []) =
     (Return (),
      (fake_authorize \<lparr>Authorize_GroupId = Some groupId,
                       Authorize_IpPermissions = [ipPermission cidr]\<rparr> t,
       [DescribeVpcsCall, DescribeSecurityGroupsCall,
        AuthorizeSecurityGroupIngressCall
          \<lparr>Authorize_GroupId = Some groupId,
           Authorize_IpPermissions = [ipPermission cidr]\<rparr>]))"
proof -
  have c: "GetCidr ctx c (recording fake) (t, []) = (Return (vpcID, cidr), (t, [DescribeVpcsCall]))"
    by (simp add: GetCidr_recording assms(4))
  have g: "getSecurityGroup (recording fake) secName (t, [DescribeVpcsCall]) =
      (Return (Some sec), (t, [DescribeVpcsCall, DescribeSecurityGroupsCall]))"
    by (simp add: getSecurityGroup_recording getSecurityGroup_fake [OF assms(3)] assms(5))
  have a: "AuthorizeSecurityGroupIngress (recording fake)
        \<lparr>Authorize_GroupId = Some groupId, Authorize_IpPermissions = [ipPermission cidr]\<rparr>
        (t, [DescribeVpcsCall, DescribeSecurityGroupsCall]) =
      (Inr (),
       (fake_authorize \<lparr>Authorize_GroupId = Some groupId,
                        Authorize_IpPermissions = [ipPermission cidr]\<rparr> t,
        [DescribeVpcsCall, DescribeSecurityGroupsCall,
         AuthorizeSecurityGroupIngressCall
           \<lparr>Authorize_GroupId = Some groupId,
            Authorize_IpPermissions = [ipPermission cidr]\<rparr>]))"
    using assms(3) by simp
  show ?thesis
    using SetupSecurityGroup_authorizes [OF assms(1,2) c g assms(6,7) a] by simp
qed

lemma GetCidr_fake_after:
  assumes "GetCidr ctx c fake s = (Return x, s)"
    and "fake_Vpcs t = fake_Vpcs s"
    and "(fake_now t < fake_ready_at t) = (fake_now s < fake_ready_at s)"
  shows "GetCidr ctx c fake t = (Return x, t)"
  using GetCidr_fake_same [OF assms(2,3), of ctx c] GetCidr_fake_state [of ctx c t] assms(1)
  by (cases "GetCidr ctx c fake t") simp

lemma fake_authorize_group_adds:
  "SecurityGroup_GroupId sec = Some groupId \<Longrightarrow>
   SecurityGroup_IpPermissions
     (fake_authorize_group \<lparr>Authorize_GroupId = Some groupId,
                            Authorize_IpPermissions = [p]\<rparr> sec) =
   SecurityGroup_IpPermissions sec @ [p]"
  by (simp add: fake_authorize_group_def)

lemma list_ex_named:
  "sec \<in> set secGroups \<and> SecurityGroup_GroupName sec = Some secName \<Longrightarrow>
   list_ex (\<lambda>sec. SecurityGroup_GroupName sec = Some secName) secGroups"
  by (auto simp: list_ex_iff)

section \<open>The calls of a run\<close>

lemma getSubnets_condition_recording:
  "getSubnets_condition (recording ec2Svc) (subs, (s, log)) =
     (case fst (DescribeSubnets ec2Svc s) of
        Inl err \<Rightarrow> ((False, None),
                    (subs, (snd (DescribeSubnets ec2Svc s), log @ [DescribeSubnetsCall])))
      | Inr listOutput \<Rightarrow> ((True, None),
                    (listOutput, (snd (DescribeSubnets ec2Svc s), log @ [DescribeSubnetsCall]))))"
  by (simp add: getSubnets_condition_def split: sum.splits)

lemma poll_recording_log:
  assumes "sleep = (\<lambda>d (subs, s). (subs, Sleep (recording ec2Svc) d s))"
  shows "\<exists>cs. snd (snd (snd (PollImmediate_from elapsed sleep interval timeout
             (getSubnets_condition (recording ec2Svc)) t))) =
          snd (snd t) @ DescribeSubnetsCall # cs
      \<and> list_all read_only cs"
  using assms
proof (induction elapsed sleep interval timeout "getSubnets_condition (recording ec2Svc)" t
    rule: PollImmediate_from.induct)
  case (1 elapsed sleep interval timeout t)
  obtain subs s log where t: "t = (subs, (s, log))"
    by (cases t) auto
  let ?s1 = "snd (DescribeSubnets ec2Svc s)"
  show ?case
  proof (cases "fst (DescribeSubnets ec2Svc s)")
    case (Inr items)
    then have "PollImmediate_from elapsed sleep interval timeout
        (getSubnets_condition (recording ec2Svc)) t =
        (None, (items, (?s1, log @ [DescribeSubnetsCall])))"
      by (subst PollImmediate_from.simps) (simp add: t getSubnets_condition_recording)
    then show ?thesis by (simp add: t)
  next
    case (Inl err)
    then have c: "getSubnets_condition (recording ec2Svc) t =
        ((False, None), (subs, (?s1, log @ [DescribeSubnetsCall])))"
      by (simp add: t getSubnets_condition_recording)
    show ?thesis
    proof (cases "interval = 0 \<or> timeout < elapsed + interval")
      case True
      then have "PollImmediate_from elapsed sleep interval timeout
          (getSubnets_condition (recording ec2Svc)) t =
          (Some ErrWaitTimeout, (subs, (?s1, log @ [DescribeSubnetsCall])))"
        by (subst PollImmediate_from.simps) (auto simp: c)
      then show ?thesis by (simp add: t)
    next
      case False
      let ?t2 = "sleep interval (subs, (?s1, log @ [DescribeSubnetsCall]))"
      from False have step: "PollImmediate_from elapsed sleep interval timeout
          (getSubnets_condition (recording ec2Svc)) t =
          PollImmediate_from (elapsed + interval) sleep interval timeout
            (getSubnets_condition (recording ec2Svc)) ?t2"
        by (subst PollImmediate_from.simps) (auto simp: c)
      from "1.hyps" [OF c [symmetric] refl refl refl False "1.prems"]
      obtain cs where cs: "snd (snd (snd (PollImmediate_from (elapsed + interval) sleep interval
             timeout (getSubnets_condition (recording ec2Svc)) ?t2))) =
          snd (snd ?t2) @ DescribeSubnetsCall # cs"
        and ro: "list_all read_only cs"
        by blast
      have "snd (snd ?t2) = log @ [DescribeSubnetsCall, SleepCall interval]"
        by (simp add: "1.prems")
      with cs have "snd (snd (snd (PollImmediate_from elapsed sleep interval timeout
             (getSubnets_condition (recording ec2Svc)) t))) =
          snd (snd t) @ DescribeSubnetsCall # (SleepCall interval # DescribeSubnetsCall # cs)"
        unfolding step by (simp add: t)
      moreover have "list_all read_only (SleepCall interval # DescribeSubnetsCall # cs)"
        using ro by simp
      ultimately show ?thesis by blast
    qed
  qed
qed

lemma getSubnets_recording_log:
  "\<exists>cs. snd (snd (getSubnets (recording ec2Svc) (s, log))) = log @ DescribeSubnetsCall # cs
      \<and> list_all read_only cs"
proof -
  let ?r = "PollImmediate_from 0 (\<lambda>d (subs, s). (subs, Sleep (recording ec2Svc) d s)) 5 (5 * 60)
             (getSubnets_condition (recording ec2Svc)) ([], (s, log))"
  have "snd (snd (getSubnets (recording ec2Svc) (s, log))) = snd (snd (snd ?r))"
    by (simp add: getSubnets_def PollImmediate_def split: prod.splits option.splits)
  moreover obtain cs where "snd (snd (snd ?r)) = log @ DescribeSubnetsCall # cs"
    "list_all read_only cs"
    using poll_recording_log [OF refl, where ec2Svc = ec2Svc and elapsed = 0 and interval = 5
        and timeout = "5 * 60" and t = "([], (s, log))"] by auto
  ultimately show ?thesis by auto
qed

lemma getSubnets_recording_retry:
  assumes "isl (fst (DescribeSubnets ec2Svc s))"
  shows "\<exists>cs. snd (snd (getSubnets (recording ec2Svc) (s, []))) =
           DescribeSubnetsCall # SleepCall 5 # DescribeSubnetsCall # cs"
proof -
  let ?sl = "\<lambda>d (subs, s). (subs, Sleep (recording ec2Svc) d s)"
  let ?s1 = "snd (DescribeSubnets ec2Svc s)"
  let ?t2 = "([], (Sleep ec2Svc 5 ?s1, [DescribeSubnetsCall, SleepCall 5]))"
  obtain err where "fst (DescribeSubnets ec2Svc s) = Inl err"
    using assms by (auto simp: isl_def)
  then have d: "DescribeSubnets (recording ec2Svc) (s, []) =
      (Inl err, (?s1, [DescribeSubnetsCall]))"
    by simp
  have step: "PollImmediate_from 0 ?sl 5 300 (getSubnets_condition (recording ec2Svc)) ([], (s, [])) =
      PollImmediate_from 5 ?sl 5 300 (getSubnets_condition (recording ec2Svc)) ?t2"
    using poll_step_fail [OF d, of 0 "[]"] by simp
  obtain cs where "snd (snd (snd (PollImmediate_from 5 ?sl 5 300
        (getSubnets_condition (recording ec2Svc)) ?t2))) =
      [DescribeSubnetsCall, SleepCall 5] @ DescribeSubnetsCall # cs"
    using poll_recording_log [OF refl, where ec2Svc = ec2Svc and elapsed = 5 and interval = 5
        and timeout = 300 and t = ?t2] by auto
  then have "snd (snd (getSubnets (recording ec2Svc) (s, []))) =
           DescribeSubnetsCall # SleepCall 5 # DescribeSubnetsCall # cs"
    by (auto simp: getSubnets_def PollImmediate_def step split: prod.splits option.splits)
  then show ?thesis by blast
qed

lemma GetVPCSubnets_recording_log:
  "snd (snd (GetVPCSubnets ctx c (recording ec2Svc) (s, log))) =
     snd (snd (getSubnets (recording ec2Svc) (s, log))) @
     (case fst (getSubnets (recording ec2Svc) (s, log)) of
        Return subs \<Rightarrow> [DescribeVpcsCall] | Error err \<Rightarrow> [] | Panic \<Rightarrow> [])"
proof -
  obtain r s1 log1 where g: "getSubnets (recording ec2Svc) (s, log) = (r, (s1, log1))"
    by (metis surj_pair)
  show ?thesis
    by (cases r) (simp_all add: GetVPCSubnets_def g getVpc_recording
        split: result.splits option.splits)
qed

lemma GetAllSubnetIDS_state:
  "snd (GetAllSubnetIDS ctx c ec2Svc s) = snd (GetVPCSubnets ctx c ec2Svc s)"
  by (simp add: GetAllSubnetIDS_def Let_def split: prod.splits result.splits)

lemma GetPrivateSubnetIDS_state:
  "snd (GetPrivateSubnetIDS ctx c ec2Svc s) = snd (GetVPCSubnets ctx c ec2Svc s)"
  by (simp add: GetPrivateSubnetIDS_def Let_def split: prod.splits result.splits)

lemma GetVPCSubnets_read_only:
  "list_all read_only (calls_of (GetVPCSubnets ctx c (recording ec2Svc) (s, [])))"
proof -
  obtain cs where "snd (snd (getSubnets (recording ec2Svc) (s, []))) = DescribeSubnetsCall # cs"
    "list_all read_only cs"
    using getSubnets_recording_log [of ec2Svc s "[]"] by auto
  then show ?thesis
    by (simp add: calls_of_def GetVPCSubnets_recording_log split: result.splits)
qed

lemma SetupSecurityGroup_calls:
  "calls_of (SetupSecurityGroup ctx c (recording ec2Svc) (s, [])) = [] \<or>
   calls_of (SetupSecurityGroup ctx c (recording ec2Svc) (s, [])) = [DescribeVpcsCall] \<or>
   calls_of (SetupSecurityGroup ctx c (recording ec2Svc) (s, [])) =
     [DescribeVpcsCall, DescribeSecurityGroupsCall] \<or>
   (\<exists>y. calls_of (SetupSecurityGroup ctx c (recording ec2Svc) (s, [])) =
     [DescribeVpcsCall, DescribeSecurityGroupsCall, CreateSecurityGroupCall y]) \<or>
   (\<exists>x. calls_of (SetupSecurityGroup ctx c (recording ec2Svc) (s, [])) =
     [DescribeVpcsCall, DescribeSecurityGroupsCall, AuthorizeSecurityGroupIngressCall x])"
  by (simp add: SetupSecurityGroup_def calls_of_def GetCidr_recording
      getSecurityGroup_recording
      split: sum.splits prod.splits result.splits option.splits)


lemma getSubnets_recording_succeeds:
  assumes "k \<le> 60"
    and "\<forall>j<k. isl (fst (DescribeSubnets ec2Svc (poll_state ec2Svc j s)))"
    and "DescribeSubnets ec2Svc (poll_state ec2Svc k s) = (Inr items, s')"
  shows "getSubnets (recording ec2Svc) (s, []) = (Return items, (s', poll_calls k))"
  using assms(1)
proof (rule getSubnets_succeeds)
  show "\<forall>j<k. isl (fst (DescribeSubnets (recording ec2Svc)
               (poll_state (recording ec2Svc) j (s, []))))"
    using assms(2) by (simp add: recording_poll_fails)
  show "DescribeSubnets (recording ec2Svc) (poll_state (recording ec2Svc) k (s, [])) =
      (Inr items, (s', poll_calls k))"
    using assms(3) by (rule recording_poll_answer)
qed

lemma example_client_expired [simp]:
  "GetClusterID example_client expired_ctx = Inl (New ''context deadline exceeded'')"
  "deadline_expired expired_ctx"
  by (simp_all add: example_client_def expired_ctx_def)

lemma poll_calls_simps:
  "poll_calls 0 = [DescribeSubnetsCall]"
  "poll_calls (Suc k) = DescribeSubnetsCall # SleepCall 5 # poll_calls k"
  by (simp_all add: poll_calls_def)

section \<open>The claims\<close>

subsection \<open>C4: the canonical VPC\<close>

text \<open>
  C4. \<open>getVpc\<close> (findCanonicalDomain) scans all the listed VPCs for a tag whose value is
  \<^verbatim>\<open><identity>-vpc\<close>. When the listing succeeds, the cluster identity is known and every
  listed tag has a value: if no VPC matches, it fails with the error "error, no vpc
  found" and returns no VPC; otherwise it returns the last matching VPC of the listing.
\<close>

theorem getVpc_last_match_or_not_found:
  assumes "DescribeVpcs ec2Svc s = (Inr vpcs, s')"
    and "GetClusterID c ctx = Inr clusterID"
    and "list_all (\<lambda>vpc. tags_valued (Vpc_Tags vpc)) vpcs"
  shows "getVpc ctx c ec2Svc s =
    (if filter (vpc_matches clusterID) vpcs = [] then Error (New ''error, no vpc found'')
     else Return (Some (last (filter (vpc_matches clusterID) vpcs))), s')"
  using assms by (rule getVpc_listed)

text \<open>
  Of the two VPCs tagged \<^verbatim>\<open>bar-vpc\<close> in the example listing the later one is returned; and
  a listing with the VPC \<^verbatim>\<open>foo-vpc\<close> alone gives the error.
\<close>

theorem getVpc_last_match_or_not_found_witness:
  "getVpc live_ctx example_client fake example_provider = (Return (Some vpc_bar), example_provider)
   \<and> getVpc live_ctx example_client fake (example_provider\<lparr>fake_Vpcs := [vpc_foo]\<rparr>) =
       (Error (New ''error, no vpc found''), example_provider\<lparr>fake_Vpcs := [vpc_foo]\<rparr>)"
  using getVpc_last_match_or_not_found [of fake example_provider
      "[vpc_bar_old, vpc_foo, vpc_bar]" example_provider example_client live_ctx "''bar''"]
    getVpc_last_match_or_not_found [of fake "example_provider\<lparr>fake_Vpcs := [vpc_foo]\<rparr>"
      "[vpc_foo]" "example_provider\<lparr>fake_Vpcs := [vpc_foo]\<rparr>" example_client live_ctx "''bar''"]
  by simp

subsection \<open>C5: the poll of getSubnets\<close>

text \<open>
  C5. For every provider, \<open>getSubnets\<close> (the Eventually-Consistent Lister) calls
  \<^verbatim>\<open>DescribeSubnets\<close> immediately and, while it fails, again after every 5 seconds, 60 times
  at most (5 minutes). If the call \<open>k\<close> is the first that succeeds, the poll stops there and
  returns that call's subnets with no error, having issued \<open>k\<close> failed calls, each followed
  by a sleep of 5 seconds, and the successful call. If all the 61 calls fail, it returns
  the error "timed out waiting for the condition". A failure of \<^verbatim>\<open>DescribeSubnets\<close> is
  never the result: the result is a listing or that timeout error.
\<close>

theorem getSubnets_polls:
  "(k \<le> 60 \<and> (\<forall>j<k. isl (fst (DescribeSubnets ec2Svc (poll_state ec2Svc j s))))
      \<and> DescribeSubnets ec2Svc (poll_state ec2Svc k s) = (Inr items, s')
     \<longrightarrow> getSubnets (recording ec2Svc) (s, []) = (Return items, (s', poll_calls k)))
   \<and> ((\<forall>j\<le>60. isl (fst (DescribeSubnets ec2Svc (poll_state ec2Svc j s))))
     \<longrightarrow> getSubnets (recording ec2Svc) (s, []) =
           (Error ErrWaitTimeout,
            (snd (DescribeSubnets ec2Svc (poll_state ec2Svc 60 s)), poll_calls 60)))
   \<and> (case fst (getSubnets ec2Svc s) of
         Return items \<Rightarrow> True | Error err \<Rightarrow> err = ErrWaitTimeout | Panic \<Rightarrow> False)"
proof (intro conjI impI)
  assume a: "k \<le> 60 \<and> (\<forall>j<k. isl (fst (DescribeSubnets ec2Svc (poll_state ec2Svc j s))))
      \<and> DescribeSubnets ec2Svc (poll_state ec2Svc k s) = (Inr items, s')"
  then have "\<forall>j<k. isl (fst (DescribeSubnets (recording ec2Svc)
               (poll_state (recording ec2Svc) j (s, []))))"
    by (simp add: recording_poll_fails)
  moreover have "DescribeSubnets (recording ec2Svc) (poll_state (recording ec2Svc) k (s, [])) =
      (Inr items, (s', poll_calls k))"
    using a by (intro recording_poll_answer) simp
  ultimately show "getSubnets (recording ec2Svc) (s, []) = (Return items, (s', poll_calls k))"
    using a by (intro getSubnets_succeeds [where k = k]) simp_all
next
  assume a: "\<forall>j\<le>60. isl (fst (DescribeSubnets ec2Svc (poll_state ec2Svc j s)))"
  then have "\<forall>j\<le>60. isl (fst (DescribeSubnets (recording ec2Svc)
               (poll_state (recording ec2Svc) j (s, []))))"
    by (simp add: recording_poll_fails)
  then have "getSubnets (recording ec2Svc) (s, []) =
      (Error ErrWaitTimeout,
       snd (DescribeSubnets (recording ec2Svc) (poll_state (recording ec2Svc) 60 (s, []))))"
    by (rule getSubnets_times_out)
  moreover have "DescribeSubnets (recording ec2Svc) (poll_state (recording ec2Svc) 60 (s, [])) =
      (fst (DescribeSubnets ec2Svc (poll_state ec2Svc 60 s)),
       (snd (DescribeSubnets ec2Svc (poll_state ec2Svc 60 s)), poll_calls 60))"
    by (intro recording_poll_answer) simp
  ultimately show "getSubnets (recording ec2Svc) (s, []) =
      (Error ErrWaitTimeout,
       (snd (DescribeSubnets ec2Svc (poll_state ec2Svc 60 s)), poll_calls 60))"
    by simp
next
  show "case fst (getSubnets ec2Svc s) of
         Return items \<Rightarrow> True | Error err \<Rightarrow> err = ErrWaitTimeout | Panic \<Rightarrow> False"
    by (rule getSubnets_result)
qed

text \<open>
  A provider whose credentials are ready after 7 seconds answers the third call; one
  that is not ready within 5 minutes gives the timeout.
\<close>

theorem getSubnets_polls_witness:
  "getSubnets (recording fake) (example_provider\<lparr>fake_ready_at := 7\<rparr>, []) =
     (Return [subnet_private_a, subnet_public_a, subnet_twice, subnet_foo],
      (example_provider\<lparr>fake_ready_at := 7, fake_now := 10\<rparr>,
       [DescribeSubnetsCall, SleepCall 5, DescribeSubnetsCall, SleepCall 5,
        DescribeSubnetsCall]))
   \<and> getSubnets (recording fake) (example_provider\<lparr>fake_ready_at := 1000\<rparr>, []) =
     (Error (New ''timed out waiting for the condition''),
      (example_provider\<lparr>fake_ready_at := 1000, fake_now := 300\<rparr>, poll_calls 60))"
proof -
  have two: "(j < (2::nat)) = (j = 0 \<or> j = 1)" for j by auto
  have "getSubnets (recording fake) (example_provider\<lparr>fake_ready_at := 7\<rparr>, []) =
     (Return [subnet_private_a, subnet_public_a, subnet_twice, subnet_foo],
      (example_provider\<lparr>fake_ready_at := 7, fake_now := 10\<rparr>, poll_calls 2))"
    using getSubnets_polls [of 2 fake "example_provider\<lparr>fake_ready_at := 7\<rparr>"
        "[subnet_private_a, subnet_public_a, subnet_twice, subnet_foo]"
        "example_provider\<lparr>fake_ready_at := 7, fake_now := 10\<rparr>"]
    by (simp add: poll_state_fake two)
  moreover have "getSubnets (recording fake) (example_provider\<lparr>fake_ready_at := 1000\<rparr>, []) =
     (Error ErrWaitTimeout,
      (example_provider\<lparr>fake_ready_at := 1000, fake_now := 300\<rparr>, poll_calls 60))"
    using getSubnets_polls [of 0 fake "example_provider\<lparr>fake_ready_at := 1000\<rparr>"]
    by (simp add: poll_state_fake)
  ultimately show ?thesis
    by (simp add: poll_calls_def ErrWaitTimeout_def numeral_2_eq_2)
qed

subsection \<open>C6: the associated subnets\<close>

text \<open>
  C6. \<open>GetVPCSubnets\<close> (listAssociatedSubnets) never returns an empty list. When the
  poll has listed the subnets and the VPCs are listed: if no VPC is the canonical one, it
  fails with the error "error, no vpc found" (wrapped by "error getting vpcs"); otherwise
  it returns, in the order of the listing, exactly the listed subnets whose VPC
  identifier is the canonical VPC's, and fails with the error "error, unable to find
  subnets associated with cluster vpc" when there is none.
\<close>

theorem GetVPCSubnets_associated_or_not_found:
  assumes "getSubnets ec2Svc s = (Return subs, s1)"
    and "DescribeVpcs ec2Svc s1 = (Inr vpcs, s2)"
    and "GetClusterID c ctx = Inr clusterID"
    and "list_all (\<lambda>vpc. tags_valued (Vpc_Tags vpc)) vpcs"
  shows "fst (GetVPCSubnets ctx c ec2Svc s) \<noteq> Return []
    \<and> (filter (vpc_matches clusterID) vpcs = [] \<longrightarrow>
         GetVPCSubnets ctx c ec2Svc s =
           (Error (Wrap (New ''error, no vpc found'') ''error getting vpcs''), s2))
    \<and> (\<forall>vpcID. filter (vpc_matches clusterID) vpcs \<noteq> []
           \<and> Vpc_VpcId (last (filter (vpc_matches clusterID) vpcs)) = Some vpcID
           \<and> list_all (\<lambda>sub. Subnet_VpcId sub \<noteq> None) subs \<longrightarrow>
         GetVPCSubnets ctx c ec2Svc s =
           (if filter (\<lambda>sub. Subnet_VpcId sub = Some vpcID) subs = []
            then Error (New ''error, unable to find subnets associated with cluster vpc'')
            else Return (filter (\<lambda>sub. Subnet_VpcId sub = Some vpcID) subs), s2))"
proof (intro conjI impI allI)
  show "fst (GetVPCSubnets ctx c ec2Svc s) \<noteq> Return []"
    by (rule GetVPCSubnets_never_empty)
next
  assume "filter (vpc_matches clusterID) vpcs = []"
  then show "GetVPCSubnets ctx c ec2Svc s =
      (Error (Wrap (New ''error, no vpc found'') ''error getting vpcs''), s2)"
    using assms(1) by (simp add: GetVPCSubnets_def getVpc_listed [OF assms(2,3,4)])
next
  fix vpcID
  assume "filter (vpc_matches clusterID) vpcs \<noteq> []
           \<and> Vpc_VpcId (last (filter (vpc_matches clusterID) vpcs)) = Some vpcID
           \<and> list_all (\<lambda>sub. Subnet_VpcId sub \<noteq> None) subs"
  then show "GetVPCSubnets ctx c ec2Svc s =
           (if filter (\<lambda>sub. Subnet_VpcId sub = Some vpcID) subs = []
            then Error (New ''error, unable to find subnets associated with cluster vpc'')
            else Return (filter (\<lambda>sub. Subnet_VpcId sub = Some vpcID) subs), s2)"
    by (intro GetVPCSubnets_listed [OF assms]) simp_all
qed

text \<open>
  In the example three subnets belong to the canonical VPC; without a canonical VPC, and
  with a subnet of another VPC only, the two errors.
\<close>

theorem GetVPCSubnets_associated_or_not_found_witness:
  "GetVPCSubnets live_ctx example_client fake example_provider =
     (Return [subnet_private_a, subnet_public_a, subnet_twice], example_provider)
   \<and> GetVPCSubnets live_ctx example_client fake (example_provider\<lparr>fake_Vpcs := [vpc_foo]\<rparr>) =
     (Error (Wrap (New ''error, no vpc found'') ''error getting vpcs''),
      example_provider\<lparr>fake_Vpcs := [vpc_foo]\<rparr>)
   \<and> GetVPCSubnets live_ctx example_client fake (example_provider\<lparr>fake_Subnets := [subnet_foo]\<rparr>) =
     (Error (New ''error, unable to find subnets associated with cluster vpc''),
      example_provider\<lparr>fake_Subnets := [subnet_foo]\<rparr>)"
proof -
  let ?p = "example_provider"
  let ?q = "example_provider\<lparr>fake_Vpcs := [vpc_foo]\<rparr>"
  let ?r = "example_provider\<lparr>fake_Subnets := [subnet_foo]\<rparr>"
  have "getSubnets fake ?p = (Return (fake_Subnets ?p), ?p)"
    "getSubnets fake ?q = (Return (fake_Subnets ?q), ?q)"
    "getSubnets fake ?r = (Return (fake_Subnets ?r), ?r)"
    by (rule getSubnets_fake_ready, simp)+
  then show ?thesis
    using GetVPCSubnets_associated_or_not_found [of fake ?p "fake_Subnets ?p" ?p
        "[vpc_bar_old, vpc_foo, vpc_bar]" ?p example_client live_ctx "''bar''"]
      GetVPCSubnets_associated_or_not_found [of fake ?q "fake_Subnets ?q" ?q
        "[vpc_foo]" ?q example_client live_ctx "''bar''"]
      GetVPCSubnets_associated_or_not_found [of fake ?r "fake_Subnets ?r" ?r
        "[vpc_bar_old, vpc_foo, vpc_bar]" ?r example_client live_ctx "''bar''"]
    by simp
qed

subsection \<open>C7: the private subnets\<close>

text \<open>
  C7. When \<open>GetVPCSubnets\<close> returns the associated subnets and every tag of theirs has a
  value, \<open>GetPrivateSubnetIDS\<close> (listPrivateSubnetIdentifiers) fails with the error
  "failed to get list of private subnet ids" if no tag value of any of them matches the
  pattern \<^verbatim>\<open>\b(\w*private\w*)\b\<close>, and otherwise returns a list of identifiers: exactly
  those of the associated subnets that have a tag whose value matches. A value matches
  the pattern when it contains \<^verbatim>\<open>private\<close>, in this case of the letters, with whatever
  word characters around it.
\<close>

theorem GetPrivateSubnetIDS_private_or_not_found:
  assumes "GetVPCSubnets ctx c ec2Svc s = (Return subs, s')"
    and "list_all (\<lambda>sub. tags_valued (Subnet_Tags sub)) subs"
  shows "(\<not> list_ex subnet_private subs \<longrightarrow>
            GetPrivateSubnetIDS ctx c ec2Svc s =
              (Error (New ''failed to get list of private subnet ids''), s'))
    \<and> (list_ex subnet_private subs \<longrightarrow>
            GetPrivateSubnetIDS ctx c ec2Svc s = (Return (private_ids subs), s')
          \<and> set (private_ids subs) = Subnet_SubnetId ` {sub \<in> set subs. subnet_private sub})
    \<and> (\<forall>v. MatchString_private v \<longleftrightarrow> sublist ''private'' v)"
  by (simp add: GetPrivateSubnetIDS_listed [OF assms] private_ids_empty set_private_ids
      MatchString_private_iff_sublist)

text \<open>
  Of the subnets tagged \<^verbatim>\<open>cluster-private-a\<close> and \<^verbatim>\<open>cluster-public-a\<close> the first is
  returned; the second alone gives the error.
\<close>

theorem GetPrivateSubnetIDS_private_or_not_found_witness:
  "GetPrivateSubnetIDS live_ctx example_client fake
     (example_provider\<lparr>fake_Subnets := [subnet_private_a, subnet_public_a]\<rparr>) =
     (Return [Some ''subnet-a''],
      example_provider\<lparr>fake_Subnets := [subnet_private_a, subnet_public_a]\<rparr>)
   \<and> GetPrivateSubnetIDS live_ctx example_client fake
     (example_provider\<lparr>fake_Subnets := [subnet_public_a]\<rparr>) =
     (Error (New ''failed to get list of private subnet ids''),
      example_provider\<lparr>fake_Subnets := [subnet_public_a]\<rparr>)"
proof -
  let ?p = "example_provider\<lparr>fake_Subnets := [subnet_private_a, subnet_public_a]\<rparr>"
  let ?q = "example_provider\<lparr>fake_Subnets := [subnet_public_a]\<rparr>"
  have p: "GetVPCSubnets live_ctx example_client fake ?p =
      (Return [subnet_private_a, subnet_public_a], ?p)"
    by (simp add: GetVPCSubnets_fake_bar)
  have q: "GetVPCSubnets live_ctx example_client fake ?q = (Return [subnet_public_a], ?q)"
    by (simp add: GetVPCSubnets_fake_bar)
  show ?thesis
    using GetPrivateSubnetIDS_private_or_not_found [OF p]
      GetPrivateSubnetIDS_private_or_not_found [OF q]
    by simp
qed

subsection \<open>C10: one identifier for every matching tag\<close>

text \<open>
  C10. Under the same conditions the list that \<open>GetPrivateSubnetIDS\<close> returns holds,
  subnet after subnet, the subnet's identifier once for every tag of the subnet whose
  value matches. So, when the associated subnets have distinct identifiers, the
  identifier of a subnet with \<open>k\<close> matching tags occurs exactly \<open>k\<close> times; and the list
  is free of duplicates only when no subnet has more than one matching tag.
\<close>

theorem GetPrivateSubnetIDS_once_per_matching_tag:
  assumes "GetVPCSubnets ctx c ec2Svc s = (Return subs, s')"
    and "list_all (\<lambda>sub. tags_valued (Subnet_Tags sub)) subs"
  shows "GetPrivateSubnetIDS ctx c ec2Svc s =
      (if private_ids subs = [] then Error (New ''failed to get list of private subnet ids'')
       else Return (private_ids subs), s')
    \<and> (distinct (map Subnet_SubnetId subs) \<longrightarrow>
         (\<forall>sub\<in>set subs.
            count_list (private_ids subs) (Subnet_SubnetId sub) = private_tags sub))
    \<and> (distinct (private_ids subs) \<longrightarrow> (\<forall>sub\<in>set subs. private_tags sub \<le> 1))"
  using GetPrivateSubnetIDS_listed [OF assms] count_private_ids distinct_private_ids
  by blast

text \<open>
  The example subnet \<^verbatim>\<open>subnet-c\<close> has two matching tags and is returned twice.
\<close>

theorem GetPrivateSubnetIDS_once_per_matching_tag_witness:
  "GetPrivateSubnetIDS live_ctx example_client fake example_provider =
     (Return [Some ''subnet-a'', Some ''subnet-c'', Some ''subnet-c''], example_provider)
   \<and> private_tags subnet_twice = 2
   \<and> count_list [Some ''subnet-a'', Some ''subnet-c'', Some ''subnet-c'']
        (Subnet_SubnetId subnet_twice) = 2"
proof -
  have p: "GetVPCSubnets live_ctx example_client fake example_provider =
      (Return [subnet_private_a, subnet_public_a, subnet_twice], example_provider)"
    by (simp add: GetVPCSubnets_fake_bar)
  show ?thesis
    using GetPrivateSubnetIDS_once_per_matching_tag [OF p]
    by (simp add: numeral_2_eq_2)
qed

subsection \<open>C3: the group is created\<close>

text \<open>
  C3. When the cluster identity and the group's name are found, the canonical VPC (the
  last VPC of the listing with a tag value \<^verbatim>\<open><identity>-vpc\<close>) has an identifier and a
  CIDR block, and no security group of the listing has the derived name (every listed
  group having a name), \<open>SetupSecurityGroup\<close> (ensureSecurityPosture) issues, after
  the two listings, exactly one call: create-security-group with the derived name, the
  description "security group for cluster <identity>" and the canonical VPC's
  identifier. It returns success when that call succeeds (its error, wrapped, otherwise),
  and issues no authorize-ingress call.
\<close>

theorem SetupSecurityGroup_creates_absent_group:
  assumes "GetClusterID c ctx = Inr clusterID"
    and "BuildInfraName c ctx defaultSecurityGroupPostfix (DefaultAwsIdentifierLength c) =
           Inr secName"
    and "DescribeVpcs ec2Svc s = (Inr vpcs, s1)"
    and "list_all (\<lambda>vpc. tags_valued (Vpc_Tags vpc)) vpcs"
    and "filter (vpc_matches clusterID) vpcs \<noteq> []"
    and "Vpc_VpcId (last (filter (vpc_matches clusterID) vpcs)) = Some vpcID"
    and "Vpc_CidrBlock (last (filter (vpc_matches clusterID) vpcs)) = Some cidr"
    and "DescribeSecurityGroups ec2Svc s1 = (Inr secGroups, s2)"
    and "list_all (\<lambda>sec. SecurityGroup_GroupName sec \<noteq> None
                  \<and> SecurityGroup_GroupName sec \<noteq> Some secName) secGroups"
    and "CreateSecurityGroup ec2Svc
           \<lparr>Create_Description = Some (''security group for cluster '' @ clusterID),
            Create_GroupName = Some secName,
            Create_VpcId = Vpc_VpcId (last (filter (vpc_matches clusterID) vpcs))\<rparr> s2 =
         (r, s3)"
  shows "SetupSecurityGroup ctx c (recording ec2Svc) (s, []) =
     (case r of Inl err \<Rightarrow> Error (Wrap err ''error creating security group'')
              | Inr u \<Rightarrow> Return (),
      (s3, [DescribeVpcsCall, DescribeSecurityGroupsCall,
            CreateSecurityGroupCall
              \<lparr>Create_Description = Some (''security group for cluster '' @ clusterID),
               Create_GroupName = Some secName,
               Create_VpcId = Vpc_VpcId (last (filter (vpc_matches clusterID) vpcs))\<rparr>]))"
proof -
  have located: "GetCidr ctx c ec2Svc s = (Return (vpcID, cidr), s1)"
    by (rule GetCidr_listed [OF assms(3) assms(1) assms(4,5,6,7)])
  have "GetCidr ctx c (recording ec2Svc) (s, []) =
      (Return (vpcID, cidr), (s1, [DescribeVpcsCall]))"
    by (simp add: GetCidr_recording located)
  moreover have "getSecurityGroup (recording ec2Svc) secName (s1, [DescribeVpcsCall]) =
      (Return None, (s2, [DescribeVpcsCall, DescribeSecurityGroupsCall]))"
    by (simp add: getSecurityGroup_def assms(8) getSecurityGroup_loop_absent [OF assms(9)])
  moreover have "CreateSecurityGroup (recording ec2Svc)
           \<lparr>Create_Description = Some (''security group for cluster '' @ clusterID),
            Create_GroupName = Some secName, Create_VpcId = Some vpcID\<rparr>
           (s2, [DescribeVpcsCall, DescribeSecurityGroupsCall]) =
      (r, (s3, [DescribeVpcsCall, DescribeSecurityGroupsCall,
            CreateSecurityGroupCall
              \<lparr>Create_Description = Some (''security group for cluster '' @ clusterID),
               Create_GroupName = Some secName, Create_VpcId = Some vpcID\<rparr>]))"
    using assms(10) by (simp add: assms(6))
  ultimately have "SetupSecurityGroup ctx c (recording ec2Svc) (s, []) =
     (case r of Inl err \<Rightarrow> Error (Wrap err ''error creating security group'')
              | Inr u \<Rightarrow> Return (),
      (s3, [DescribeVpcsCall, DescribeSecurityGroupsCall,
            CreateSecurityGroupCall
              \<lparr>Create_Description = Some (''security group for cluster '' @ clusterID),
               Create_GroupName = Some secName, Create_VpcId = Some vpcID\<rparr>]))"
    by (rule SetupSecurityGroup_creates [OF assms(1,2)])
  then show ?thesis
    by (simp add: assms(6))
qed

text \<open>
  The example provider lists two VPCs tagged \<^verbatim>\<open>bar-vpc\<close> and knows the group
  \<^verbatim>\<open>default\<close> only: the group of the cluster \<^verbatim>\<open>bar\<close> is created in the later of the
  two VPCs, and nothing else is done.
\<close>

theorem SetupSecurityGroup_creates_absent_group_witness:
  "SetupSecurityGroup live_ctx example_client (recording fake)
     (example_provider\<lparr>fake_SecurityGroups := [group_default]\<rparr>, []) =
   (Return (),
    (example_provider\<lparr>fake_SecurityGroups :=
       [group_default,
        \<lparr>SecurityGroup_Description = Some ''security group for cluster bar'',
         SecurityGroup_GroupId = Some ''sg-bar-security-group'',
         SecurityGroup_GroupName = Some ''bar-security-group'',
         SecurityGroup_IpPermissions = [],
         SecurityGroup_VpcId = Some ''vpc-bar''\<rparr>]\<rparr>,
     [DescribeVpcsCall, DescribeSecurityGroupsCall,
      CreateSecurityGroupCall
        \<lparr>Create_Description = Some ''security group for cluster bar'',
         Create_GroupName = Some ''bar-security-group'',
         Create_VpcId = Some ''vpc-bar''\<rparr>]))"
proof -
  let ?p = "example_provider\<lparr>fake_SecurityGroups := [group_default]\<rparr>"
  let ?vpcs = "[vpc_bar_old, vpc_foo, vpc_bar]"
  let ?x = "\<lparr>Create_Description = Some (''security group for cluster '' @ ''bar''),
            Create_GroupName = Some ''bar-security-group'',
            Create_VpcId = Vpc_VpcId (last (filter (vpc_matches ''bar'') ?vpcs))\<rparr>"
  have vpcs: "DescribeVpcs fake ?p = (Inr ?vpcs, ?p)"
    by simp
  have valued: "list_all (\<lambda>vpc. tags_valued (Vpc_Tags vpc)) ?vpcs"
    by simp
  have matched: "filter (vpc_matches ''bar'') ?vpcs \<noteq> []"
    by simp
  have vpcID: "Vpc_VpcId (last (filter (vpc_matches ''bar'') ?vpcs)) = Some ''vpc-bar''"
    by simp
  have cidr: "Vpc_CidrBlock (last (filter (vpc_matches ''bar'') ?vpcs)) = Some ''10.0.1.0/16''"
    by simp
  have listing: "DescribeSecurityGroups fake ?p = (Inr [group_default], ?p)"
    by simp
  have absent: "list_all (\<lambda>sec. SecurityGroup_GroupName sec \<noteq> None
       \<and> SecurityGroup_GroupName sec \<noteq> Some ''bar-security-group'') [group_default]"
    by simp
  have created: "CreateSecurityGroup fake ?x ?p = (Inr (), fake_create ?x ?p)"
    by simp
  show ?thesis
    using SetupSecurityGroup_creates_absent_group [OF example_client_live(1)
        example_client_live(2) vpcs valued matched vpcID cidr listing absent created]
    by (simp add: fake_create_def)
qed

subsection \<open>C2: the permission is ensured\<close>

text \<open>
  C2. When the cluster identity and the group's name are found, the canonical VPC (the
  last VPC of the listing with a tag value \<^verbatim>\<open><identity>-vpc\<close>) has an identifier and
  the CIDR block \<open>cidr\<close>, and the first security group of the listing with the derived
  name is \<open>foundSecGroup\<close> (the groups before it having other names),
  \<open>SetupSecurityGroup\<close> builds the permission \<open>ipPermission cidr\<close>: the protocol "-1" and
  one range, the canonical VPC's CIDR block, every other field nil. If a permission of
  the group equals it in every field, no call follows the two listings. If none does,
  exactly one call follows, authorize-ingress on the group's identifier with that one
  permission. Equality is that of the fields: a CIDR block written otherwise is another
  permission.
\<close>

theorem SetupSecurityGroup_ensures_permission:
  assumes "GetClusterID c ctx = Inr clusterID"
    and "BuildInfraName c ctx defaultSecurityGroupPostfix (DefaultAwsIdentifierLength c) =
           Inr secName"
    and "DescribeVpcs ec2Svc s = (Inr vpcs, s1)"
    and "list_all (\<lambda>vpc. tags_valued (Vpc_Tags vpc)) vpcs"
    and "filter (vpc_matches clusterID) vpcs \<noteq> []"
    and "Vpc_VpcId (last (filter (vpc_matches clusterID) vpcs)) = Some vpcID"
    and "Vpc_CidrBlock (last (filter (vpc_matches clusterID) vpcs)) = Some cidr"
    and "DescribeSecurityGroups ec2Svc s1 = (Inr (pre @ foundSecGroup # post), s2)"
    and "list_all (\<lambda>sec. SecurityGroup_GroupName sec \<noteq> None
                  \<and> SecurityGroup_GroupName sec \<noteq> Some secName) pre"
    and "SecurityGroup_GroupName foundSecGroup = Some secName"
  shows "ipPermission cidr =
       \<lparr>FromPort = None, IpProtocol = Some ''-1'',
        IpRanges = Some [\<lparr>CidrIp = Some cidr, IpRange_Description = None\<rparr>],
        Ipv6Ranges = None, PrefixListIds = None, ToPort = None, UserIdGroupPairs = None\<rparr>
    \<and> (ipPermission cidr \<in> set (SecurityGroup_IpPermissions foundSecGroup) \<longrightarrow>
         SetupSecurityGroup ctx c (recording ec2Svc) (s, []) =
           (Return (), (s2, [DescribeVpcsCall, DescribeSecurityGroupsCall])))
    \<and> (\<forall>groupId r s3.
          ipPermission cidr \<notin> set (SecurityGroup_IpPermissions foundSecGroup)
          \<and> SecurityGroup_GroupId foundSecGroup = Some groupId
          \<and> AuthorizeSecurityGroupIngress ec2Svc
               \<lparr>Authorize_GroupId = Some groupId,
                Authorize_IpPermissions = [ipPermission cidr]\<rparr> s2 = (r, s3) \<longrightarrow>
         SetupSecurityGroup ctx c (recording ec2Svc) (s, []) =
           (case r of
              Inl err \<Rightarrow> Error (Wrap err ''error authorizing security group ingress'')
            | Inr u \<Rightarrow> Return (),
            (s3, [DescribeVpcsCall, DescribeSecurityGroupsCall,
                  AuthorizeSecurityGroupIngressCall
                    \<lparr>Authorize_GroupId = Some groupId,
                     Authorize_IpPermissions = [ipPermission cidr]\<rparr>])))"
proof -
  have located: "GetCidr ctx c ec2Svc s = (Return (vpcID, cidr), s1)"
    by (rule GetCidr_listed [OF assms(3) assms(1) assms(4,5,6,7)])
  have cidr: "GetCidr ctx c (recording ec2Svc) (s, []) =
      (Return (vpcID, cidr), (s1, [DescribeVpcsCall]))"
    by (simp add: GetCidr_recording located)
  have found: "getSecurityGroup (recording ec2Svc) secName (s1, [DescribeVpcsCall]) =
      (Return (Some foundSecGroup), (s2, [DescribeVpcsCall, DescribeSecurityGroupsCall]))"
    by (simp add: getSecurityGroup_def assms(8) getSecurityGroup_loop_first [OF assms(9,10)])
  show ?thesis
  proof (intro conjI impI allI)
    show "ipPermission cidr =
       \<lparr>FromPort = None, IpProtocol = Some ''-1'',
        IpRanges = Some [\<lparr>CidrIp = Some cidr, IpRange_Description = None\<rparr>],
        Ipv6Ranges = None, PrefixListIds = None, ToPort = None, UserIdGroupPairs = None\<rparr>"
      by (simp add: ipPermission_def)
  next
    assume "ipPermission cidr \<in> set (SecurityGroup_IpPermissions foundSecGroup)"
    then show "SetupSecurityGroup ctx c (recording ec2Svc) (s, []) =
           (Return (), (s2, [DescribeVpcsCall, DescribeSecurityGroupsCall]))"
      by (rule SetupSecurityGroup_in_place [OF assms(1,2) cidr found])
  next
    fix groupId r s3
    assume a: "ipPermission cidr \<notin> set (SecurityGroup_IpPermissions foundSecGroup)
          \<and> SecurityGroup_GroupId foundSecGroup = Some groupId
          \<and> AuthorizeSecurityGroupIngress ec2Svc
               \<lparr>Authorize_GroupId = Some groupId,
                Authorize_IpPermissions = [ipPermission cidr]\<rparr> s2 = (r, s3)"
    then have a1: "ipPermission cidr \<notin> set (SecurityGroup_IpPermissions foundSecGroup)"
      and a2: "SecurityGroup_GroupId foundSecGroup = Some groupId"
      and a3: "AuthorizeSecurityGroupIngress ec2Svc
               \<lparr>Authorize_GroupId = Some groupId,
                Authorize_IpPermissions = [ipPermission cidr]\<rparr> s2 = (r, s3)"
      by blast+
    have "AuthorizeSecurityGroupIngress (recording ec2Svc)
               \<lparr>Authorize_GroupId = Some groupId,
                Authorize_IpPermissions = [ipPermission cidr]\<rparr>
               (s2, [DescribeVpcsCall, DescribeSecurityGroupsCall]) =
        (r, (s3, [DescribeVpcsCall, DescribeSecurityGroupsCall,
                  AuthorizeSecurityGroupIngressCall
                    \<lparr>Authorize_GroupId = Some groupId,
                     Authorize_IpPermissions = [ipPermission cidr]\<rparr>]))"
      by (simp add: a3)
    then show "SetupSecurityGroup ctx c (recording ec2Svc) (s, []) =
           (case r of
              Inl err \<Rightarrow> Error (Wrap err ''error authorizing security group ingress'')
            | Inr u \<Rightarrow> Return (),
            (s3, [DescribeVpcsCall, DescribeSecurityGroupsCall,
                  AuthorizeSecurityGroupIngressCall
                    \<lparr>Authorize_GroupId = Some groupId,
                     Authorize_IpPermissions = [ipPermission cidr]\<rparr>]))"
      by (rule SetupSecurityGroup_authorizes [OF assms(1,2) cidr found a1 a2])
  qed
qed

text \<open>
  The VPC's CIDR block is written \<^verbatim>\<open>10.0.1.0/16\<close>. A group that has the permission for
  \<^verbatim>\<open>10.0.1.0/16\<close> is left alone; to a group that has the one for \<^verbatim>\<open>10.0.0.0/16\<close> the
  permission for \<^verbatim>\<open>10.0.1.0/16\<close> is added by one call, and the old one stays.
\<close>

theorem SetupSecurityGroup_ensures_permission_witness:
  "SetupSecurityGroup live_ctx example_client (recording fake)
     (example_provider\<lparr>fake_SecurityGroups :=
        [group_default, group_bar [ipPermission ''10.0.1.0/16'']]\<rparr>, []) =
   (Return (),
    (example_provider\<lparr>fake_SecurityGroups :=
        [group_default, group_bar [ipPermission ''10.0.1.0/16'']]\<rparr>,
     [DescribeVpcsCall, DescribeSecurityGroupsCall]))
   \<and> SetupSecurityGroup live_ctx example_client (recording fake)
     (example_provider\<lparr>fake_SecurityGroups :=
        [group_default, group_bar [ipPermission ''10.0.0.0/16'']]\<rparr>, []) =
   (Return (),
    (example_provider\<lparr>fake_SecurityGroups :=
        [group_default,
         group_bar [ipPermission ''10.0.0.0/16'', ipPermission ''10.0.1.0/16'']]\<rparr>,
     [DescribeVpcsCall, DescribeSecurityGroupsCall,
      AuthorizeSecurityGroupIngressCall
        \<lparr>Authorize_GroupId = Some ''sg-1'',
         Authorize_IpPermissions = [ipPermission ''10.0.1.0/16'']\<rparr>]))"
proof -
  let ?p = "example_provider\<lparr>fake_SecurityGroups :=
        [group_default, group_bar [ipPermission ''10.0.1.0/16'']]\<rparr>"
  let ?q = "example_provider\<lparr>fake_SecurityGroups :=
        [group_default, group_bar [ipPermission ''10.0.0.0/16'']]\<rparr>"
  let ?vpcs = "[vpc_bar_old, vpc_foo, vpc_bar]"
  have vp: "DescribeVpcs fake ?p = (Inr ?vpcs, ?p)"
    and vq: "DescribeVpcs fake ?q = (Inr ?vpcs, ?q)"
    by simp_all
  have valued: "list_all (\<lambda>vpc. tags_valued (Vpc_Tags vpc)) ?vpcs"
    by simp
  have matched: "filter (vpc_matches ''bar'') ?vpcs \<noteq> []"
    by simp
  have vpcID: "Vpc_VpcId (last (filter (vpc_matches ''bar'') ?vpcs)) = Some ''vpc-bar''"
    by simp
  have cidr: "Vpc_CidrBlock (last (filter (vpc_matches ''bar'') ?vpcs)) = Some ''10.0.1.0/16''"
    by simp
  have lp: "DescribeSecurityGroups fake ?p =
      (Inr ([group_default] @ group_bar [ipPermission ''10.0.1.0/16''] # []), ?p)"
    and lq: "DescribeSecurityGroups fake ?q =
      (Inr ([group_default] @ group_bar [ipPermission ''10.0.0.0/16''] # []), ?q)"
    by simp_all
  have pre: "list_all (\<lambda>sec. SecurityGroup_GroupName sec \<noteq> None
       \<and> SecurityGroup_GroupName sec \<noteq> Some ''bar-security-group'') [group_default]"
    by simp
  have "fake_authorize \<lparr>Authorize_GroupId = Some ''sg-1'',
          Authorize_IpPermissions = [ipPermission ''10.0.1.0/16'']\<rparr> ?q =
        example_provider\<lparr>fake_SecurityGroups :=
        [group_default,
         group_bar [ipPermission ''10.0.0.0/16'', ipPermission ''10.0.1.0/16'']]\<rparr>"
    by (simp add: fake_authorize_def fake_authorize_group_def group_bar_def)
  then show ?thesis
    using SetupSecurityGroup_ensures_permission [OF example_client_live(1)
        example_client_live(2) vp valued matched vpcID cidr lp pre example_groups_simps(4)]
      SetupSecurityGroup_ensures_permission [OF example_client_live(1)
        example_client_live(2) vq valued matched vpcID cidr lq pre example_groups_simps(4)]
    by simp
qed

subsection \<open>C1: the second run\<close>

text \<open>
  C1, as the spec states it, fails where the first run created the group: the second run
  then issues the authorize-ingress call that the first one left out. On the example
  provider, which has no security group, the first run succeeds and the mutating calls of
  the second run are that one call.
\<close>

theorem SetupSecurityGroup_second_run_counterexample:
  "fst (SetupSecurityGroup live_ctx example_client fake example_provider) = Return ()
   \<and> mutating_calls (calls_of (SetupSecurityGroup live_ctx example_client (recording fake)
        (snd (SetupSecurityGroup live_ctx example_client fake example_provider), []))) =
      [AuthorizeSecurityGroupIngressCall
         \<lparr>Authorize_GroupId = Some ''sg-bar-security-group'',
          Authorize_IpPermissions = [ipPermission ''10.0.1.0/16'']\<rparr>]"
proof -
  let ?y = "\<lparr>Create_Description = Some (''security group for cluster '' @ ''bar''),
            Create_GroupName = Some ''bar-security-group'', Create_VpcId = Some ''vpc-bar''\<rparr>"
  let ?t = "fake_create ?y example_provider"
  let ?sec = "\<lparr>SecurityGroup_Description = Some (''security group for cluster '' @ ''bar''),
           SecurityGroup_GroupId = Some ''sg-bar-security-group'',
           SecurityGroup_GroupName = Some ''bar-security-group'',
           SecurityGroup_IpPermissions = [],
           SecurityGroup_VpcId = Some ''vpc-bar''\<rparr>"
  have c1: "GetCidr live_ctx example_client fake example_provider =
      (Return (''vpc-bar'', ''10.0.1.0/16''), example_provider)"
    by (rule GetCidr_fake_bar) simp_all
  have g1: "getSecurityGroup fake ''bar-security-group'' example_provider =
      (Return None, example_provider)"
    by (simp add: getSecurityGroup_fake)
  have m1: "CreateSecurityGroup fake ?y example_provider = (Inr (), ?t)"
    by simp
  have first: "SetupSecurityGroup live_ctx example_client fake example_provider = (Return (), ?t)"
    using SetupSecurityGroup_creates [OF example_client_live c1 g1 m1] by simp
  have c2: "GetCidr live_ctx example_client fake ?t = (Return (''vpc-bar'', ''10.0.1.0/16''), ?t)"
    by (rule GetCidr_fake_bar) simp_all
  have g2: "getSecurityGroup_loop (fake_SecurityGroups ?t) ''bar-security-group'' =
      Return (Some ?sec)"
    by (simp add: fake_create_def)
  have second: "SetupSecurityGroup live_ctx example_client (recording fake) (?t, []) =
     (Return (),
      (fake_authorize \<lparr>Authorize_GroupId = Some ''sg-bar-security-group'',
                       Authorize_IpPermissions = [ipPermission ''10.0.1.0/16'']\<rparr> ?t,
       [DescribeVpcsCall, DescribeSecurityGroupsCall,
        AuthorizeSecurityGroupIngressCall
          \<lparr>Authorize_GroupId = Some ''sg-bar-security-group'',
           Authorize_IpPermissions = [ipPermission ''10.0.1.0/16'']\<rparr>]))"
    by (rule SetupSecurityGroup_fake_defers [OF example_client_live _ c2 g2]) simp_all
  show ?thesis
    using first second by (simp add: calls_of_def)
qed


text \<open>
  C1, amended. Against the fixture, whose state reflects the effects of the calls: for
  every starting state in which the first run of \<open>SetupSecurityGroup\<close> succeeded and a
  group of the derived name existed, the second run succeeds with the two listings and
  no mutating call, and leaves the provider as it is. Where no such group existed, the
  first run created it, and the second run issues exactly one mutating call, the
  authorize-ingress deferred by the first, and no create-security-group.
\<close>

theorem SetupSecurityGroup_second_run:
  assumes "fst (SetupSecurityGroup ctx c fake s) = Return ()"
    and "BuildInfraName c ctx defaultSecurityGroupPostfix (DefaultAwsIdentifierLength c) =
           Inr secName"
  shows "(list_ex (\<lambda>sec. SecurityGroup_GroupName sec = Some secName) (fake_SecurityGroups s)
          \<longrightarrow> SetupSecurityGroup ctx c (recording fake)
                (snd (SetupSecurityGroup ctx c fake s), []) =
               (Return (), (snd (SetupSecurityGroup ctx c fake s),
                            [DescribeVpcsCall, DescribeSecurityGroupsCall])))
    \<and> (\<not> list_ex (\<lambda>sec. SecurityGroup_GroupName sec = Some secName) (fake_SecurityGroups s)
          \<longrightarrow> (\<exists>cidr.
                fst (SetupSecurityGroup ctx c (recording fake)
                       (snd (SetupSecurityGroup ctx c fake s), [])) = Return ()
              \<and> calls_of (SetupSecurityGroup ctx c (recording fake)
                       (snd (SetupSecurityGroup ctx c fake s), [])) =
                  [DescribeVpcsCall, DescribeSecurityGroupsCall,
                   AuthorizeSecurityGroupIngressCall
                     \<lparr>Authorize_GroupId = Some (''sg-'' @ secName),
                      Authorize_IpPermissions = [ipPermission cidr]\<rparr>]))"
proof -
  let ?t = "snd (SetupSecurityGroup ctx c fake s)"
  let ?named = "list_ex (\<lambda>sec. SecurityGroup_GroupName sec = Some secName) (fake_SecurityGroups s)"
  from SetupSecurityGroup_fake_success [OF assms] obtain clusterID vpcID cidr where
    id: "GetClusterID c ctx = Inr clusterID"
    and ready: "\<not> fake_now s < fake_ready_at s"
    and cidr: "GetCidr ctx c fake s = (Return (vpcID, cidr), s)"
    and cases: "(getSecurityGroup_loop (fake_SecurityGroups s) secName = Return None
        \<and> ?t = fake_create \<lparr>Create_Description = Some (''security group for cluster '' @ clusterID),
                        Create_GroupName = Some secName, Create_VpcId = Some vpcID\<rparr> s)
     \<or> (\<exists>sec. getSecurityGroup_loop (fake_SecurityGroups s) secName = Return (Some sec)
        \<and> ipPermission cidr \<in> set (SecurityGroup_IpPermissions sec)
        \<and> ?t = s)
     \<or> (\<exists>sec groupId. getSecurityGroup_loop (fake_SecurityGroups s) secName = Return (Some sec)
        \<and> ipPermission cidr \<notin> set (SecurityGroup_IpPermissions sec)
        \<and> SecurityGroup_GroupId sec = Some groupId
        \<and> ?t = fake_authorize \<lparr>Authorize_GroupId = Some groupId,
                            Authorize_IpPermissions = [ipPermission cidr]\<rparr> s)"
    by blast
  from cases consider
    (created) "getSecurityGroup_loop (fake_SecurityGroups s) secName = Return None"
      "?t = fake_create \<lparr>Create_Description = Some (''security group for cluster '' @ clusterID),
                        Create_GroupName = Some secName, Create_VpcId = Some vpcID\<rparr> s"
  | (in_place) sec where "getSecurityGroup_loop (fake_SecurityGroups s) secName = Return (Some sec)"
      "ipPermission cidr \<in> set (SecurityGroup_IpPermissions sec)" "?t = s"
  | (authorized) sec groupId where
      "getSecurityGroup_loop (fake_SecurityGroups s) secName = Return (Some sec)"
      "ipPermission cidr \<notin> set (SecurityGroup_IpPermissions sec)"
      "SecurityGroup_GroupId sec = Some groupId"
      "?t = fake_authorize \<lparr>Authorize_GroupId = Some groupId,
                            Authorize_IpPermissions = [ipPermission cidr]\<rparr> s"
    by blast
  then show ?thesis
  proof cases
    case created
    let ?new = "\<lparr>SecurityGroup_Description = Some (''security group for cluster '' @ clusterID),
           SecurityGroup_GroupId = Some (''sg-'' @ secName),
           SecurityGroup_GroupName = Some secName,
           SecurityGroup_IpPermissions = [],
           SecurityGroup_VpcId = Some vpcID\<rparr>"
    have absent: "\<not> ?named"
      using created(1) by (rule getSecurityGroup_loop_None)
    have groups: "fake_SecurityGroups ?t = fake_SecurityGroups s @ [?new]"
      by (simp add: created(2) fake_create_def)
    have t_ready: "\<not> fake_now ?t < fake_ready_at ?t"
      using ready by (simp add: created(2))
    have t_cidr: "GetCidr ctx c fake ?t = (Return (vpcID, cidr), ?t)"
      by (rule GetCidr_fake_after [OF cidr]) (simp_all add: created(2))
    have t_found: "getSecurityGroup_loop (fake_SecurityGroups ?t) secName = Return (Some ?new)"
      unfolding groups by (rule getSecurityGroup_loop_snoc [OF created(1)]) simp
    have "SetupSecurityGroup ctx c (recording fake) (?t, []) =
       (Return (),
        (fake_authorize \<lparr>Authorize_GroupId = Some (''sg-'' @ secName),
                         Authorize_IpPermissions = [ipPermission cidr]\<rparr> ?t,
         [DescribeVpcsCall, DescribeSecurityGroupsCall,
          AuthorizeSecurityGroupIngressCall
            \<lparr>Authorize_GroupId = Some (''sg-'' @ secName),
             Authorize_IpPermissions = [ipPermission cidr]\<rparr>]))"
      by (rule SetupSecurityGroup_fake_defers [OF id assms(2) t_ready t_cidr t_found]) simp_all
    then have "fst (SetupSecurityGroup ctx c (recording fake) (?t, [])) = Return ()
      \<and> calls_of (SetupSecurityGroup ctx c (recording fake) (?t, [])) =
          [DescribeVpcsCall, DescribeSecurityGroupsCall,
           AuthorizeSecurityGroupIngressCall
             \<lparr>Authorize_GroupId = Some (''sg-'' @ secName),
              Authorize_IpPermissions = [ipPermission cidr]\<rparr>]"
      by (simp add: calls_of_def)
    with absent show ?thesis by blast
  next
    case in_place
    have named: "?named"
      using getSecurityGroup_loop_Some [OF in_place(1)] by (rule list_ex_named)
    have "SetupSecurityGroup ctx c (recording fake) (s, []) =
       (Return (), (s, [DescribeVpcsCall, DescribeSecurityGroupsCall]))"
      by (rule SetupSecurityGroup_fake_converged [OF id assms(2) ready cidr in_place(1,2)])
    with named show ?thesis by (simp add: in_place(3))
  next
    case authorized
    let ?x = "\<lparr>Authorize_GroupId = Some groupId,
              Authorize_IpPermissions = [ipPermission cidr]\<rparr>"
    have named: "?named"
      using getSecurityGroup_loop_Some [OF authorized(1)] by (rule list_ex_named)
    have t_ready: "\<not> fake_now ?t < fake_ready_at ?t"
      using ready by (simp add: authorized(4))
    have t_cidr: "GetCidr ctx c fake ?t = (Return (vpcID, cidr), ?t)"
      by (rule GetCidr_fake_after [OF cidr]) (simp_all add: authorized(4))
    have t_found: "getSecurityGroup_loop (fake_SecurityGroups ?t) secName =
        Return (Some (fake_authorize_group ?x sec))"
      by (simp add: authorized(4) getSecurityGroup_loop_map authorized(1))
    have t_perm: "ipPermission cidr \<in>
        set (SecurityGroup_IpPermissions (fake_authorize_group ?x sec))"
      by (simp add: fake_authorize_group_adds [OF authorized(3)])
    have "SetupSecurityGroup ctx c (recording fake) (?t, []) =
       (Return (), (?t, [DescribeVpcsCall, DescribeSecurityGroupsCall]))"
      by (rule SetupSecurityGroup_fake_converged [OF id assms(2) t_ready t_cidr t_found t_perm])
    with named show ?thesis by simp
  qed
qed

text \<open>
  With the cluster's group in place but without the permission, the first run adds the
  permission and the second run only lists.
\<close>

theorem SetupSecurityGroup_second_run_witness:
  "SetupSecurityGroup live_ctx example_client (recording fake)
     (snd (SetupSecurityGroup live_ctx example_client fake
        (example_provider\<lparr>fake_SecurityGroups := [group_default, group_bar []]\<rparr>)), []) =
   (Return (),
    (example_provider\<lparr>fake_SecurityGroups :=
        [group_default, group_bar [ipPermission ''10.0.1.0/16'']]\<rparr>,
     [DescribeVpcsCall, DescribeSecurityGroupsCall]))"
proof -
  let ?p = "example_provider\<lparr>fake_SecurityGroups := [group_default, group_bar []]\<rparr>"
  let ?x = "\<lparr>Authorize_GroupId = Some ''sg-1'',
            Authorize_IpPermissions = [ipPermission ''10.0.1.0/16'']\<rparr>"
  have c: "GetCidr live_ctx example_client fake ?p = (Return (''vpc-bar'', ''10.0.1.0/16''), ?p)"
    by (rule GetCidr_fake_bar) simp_all
  have g: "getSecurityGroup fake ''bar-security-group'' ?p = (Return (Some (group_bar [])), ?p)"
    by (simp add: getSecurityGroup_fake)
  have a: "AuthorizeSecurityGroupIngress fake ?x ?p = (Inr (), fake_authorize ?x ?p)"
    by simp
  have t: "fake_authorize ?x ?p =
      example_provider\<lparr>fake_SecurityGroups :=
        [group_default, group_bar [ipPermission ''10.0.1.0/16'']]\<rparr>"
    by (simp add: fake_authorize_def fake_authorize_group_def group_bar_def)
  have first: "SetupSecurityGroup live_ctx example_client fake ?p =
      (Return (), example_provider\<lparr>fake_SecurityGroups :=
        [group_default, group_bar [ipPermission ''10.0.1.0/16'']]\<rparr>)"
    using SetupSecurityGroup_authorizes [OF example_client_live c g _ _ a] t by simp
  have named: "list_ex (\<lambda>sec. SecurityGroup_GroupName sec = Some ''bar-security-group'')
      (fake_SecurityGroups ?p)"
    by simp
  show ?thesis
    using SetupSecurityGroup_second_run [of live_ctx example_client "?p" "''bar-security-group''"]
      first named
    by simp
qed

subsection \<open>C9: the calls that change the provider\<close>

text \<open>
  C9. For every context, client, provider and provider state, every call that
  \<open>SetupSecurityGroup\<close> issues is a listing, create-security-group or
  authorize-ingress, and at most one of its calls is not a listing; every call that
  \<open>GetVPCSubnets\<close>, \<open>GetAllSubnetIDS\<close>, \<open>GetPrivateSubnetIDS\<close> and \<open>GetCidr\<close> issue
  is a listing (or the wait of the poll). No run calls a method that deletes a security
  group, revokes a permission, or creates, modifies or deletes a subnet or a VPC.
\<close>

theorem core_mutates_by_create_or_authorize_only:
  "list_all (\<lambda>cl. read_only cl \<or> create_or_authorize cl)
     (calls_of (SetupSecurityGroup ctx c (recording ec2Svc) (s, [])))
   \<and> length (mutating_calls (calls_of (SetupSecurityGroup ctx c (recording ec2Svc) (s, [])))) \<le> 1
   \<and> list_all read_only (calls_of (GetVPCSubnets ctx c (recording ec2Svc) (s, [])))
   \<and> list_all read_only (calls_of (GetAllSubnetIDS ctx c (recording ec2Svc) (s, [])))
   \<and> list_all read_only (calls_of (GetPrivateSubnetIDS ctx c (recording ec2Svc) (s, [])))
   \<and> list_all read_only (calls_of (GetCidr ctx c (recording ec2Svc) (s, [])))"
proof (intro conjI)
  show "list_all (\<lambda>cl. read_only cl \<or> create_or_authorize cl)
     (calls_of (SetupSecurityGroup ctx c (recording ec2Svc) (s, [])))"
    using SetupSecurityGroup_calls [of ctx c ec2Svc s] by auto
  show "length (mutating_calls (calls_of (SetupSecurityGroup ctx c (recording ec2Svc) (s, []))))
      \<le> 1"
    using SetupSecurityGroup_calls [of ctx c ec2Svc s] by auto
  show "list_all read_only (calls_of (GetVPCSubnets ctx c (recording ec2Svc) (s, [])))"
    by (rule GetVPCSubnets_read_only)
  then show "list_all read_only (calls_of (GetAllSubnetIDS ctx c (recording ec2Svc) (s, [])))"
    by (simp add: calls_of_def GetAllSubnetIDS_state)
  show "list_all read_only (calls_of (GetPrivateSubnetIDS ctx c (recording ec2Svc) (s, [])))"
    using GetVPCSubnets_read_only [of ctx c ec2Svc s]
    by (simp add: calls_of_def GetPrivateSubnetIDS_state)
  show "list_all read_only (calls_of (GetCidr ctx c (recording ec2Svc) (s, [])))"
    by (simp add: calls_of_def GetCidr_recording)
qed

text \<open>The runs on the example provider, whose only mutating call creates the group.\<close>

theorem core_mutates_by_create_or_authorize_only_witness:
  "list_all (\<lambda>cl. read_only cl \<or> create_or_authorize cl)
     (calls_of (SetupSecurityGroup live_ctx example_client (recording fake)
        (example_provider, [])))
   \<and> length (mutating_calls (calls_of (SetupSecurityGroup live_ctx example_client
        (recording fake) (example_provider, [])))) \<le> 1
   \<and> list_all read_only (calls_of (GetVPCSubnets live_ctx example_client (recording fake)
        (example_provider, [])))
   \<and> list_all read_only (calls_of (GetAllSubnetIDS live_ctx example_client (recording fake)
        (example_provider, [])))
   \<and> list_all read_only (calls_of (GetPrivateSubnetIDS live_ctx example_client
        (recording fake) (example_provider, [])))
   \<and> list_all read_only (calls_of (GetCidr live_ctx example_client (recording fake)
        (example_provider, [])))"
  by (rule core_mutates_by_create_or_authorize_only)

subsection \<open>C8: the poll and the caller's context\<close>

text \<open>
  C8, as the spec states it, fails: \<open>getSubnets\<close> takes no context and the poll consults
  none. With a context whose deadline has expired and a provider that answers after 5
  seconds, \<open>GetVPCSubnets\<close> polls, sleeps the full interval, lists the subnets, and
  fails only afterwards, when the cluster identity is asked for.
\<close>

theorem GetVPCSubnets_expired_context_counterexample:
  "deadline_expired expired_ctx
   \<and> GetVPCSubnets expired_ctx example_client (recording fake)
        (example_provider\<lparr>fake_ready_at := 5\<rparr>, []) =
      (Error (Wrap (Wrap (New ''context deadline exceeded'') ''error getting clusterID'')
                ''error getting vpcs''),
       (example_provider\<lparr>fake_ready_at := 5, fake_now := 5\<rparr>,
        [DescribeSubnetsCall, SleepCall 5, DescribeSubnetsCall, DescribeVpcsCall]))"
proof -
  let ?p = "example_provider\<lparr>fake_ready_at := 5\<rparr>"
  let ?q = "example_provider\<lparr>fake_ready_at := 5, fake_now := 5\<rparr>"
  have "getSubnets (recording fake) (?p, []) =
      (Return [subnet_private_a, subnet_public_a, subnet_twice, subnet_foo],
       (?q, poll_calls 1))"
    by (rule getSubnets_recording_succeeds) (simp_all add: poll_state_fake)
  then show ?thesis
    by (simp add: GetVPCSubnets_def getVpc_def poll_calls_def)
qed

text \<open>
  C8, amended. The poll does not consult the caller's context: for every context,
  expired or not, \<open>GetVPCSubnets\<close> begins with the calls of the poll of \<open>getSubnets\<close>;
  the first call lists the subnets at once; if it fails, the poll sleeps a full interval
  of 5 seconds and calls again; if it succeeds, the VPCs are listed next.
\<close>

theorem GetVPCSubnets_polls_whatever_the_context:
  "prefix (calls_of (getSubnets (recording ec2Svc) (s, [])))
     (calls_of (GetVPCSubnets ctx c (recording ec2Svc) (s, [])))
   \<and> (isl (fst (DescribeSubnets ec2Svc s)) \<longrightarrow>
        take 3 (calls_of (GetVPCSubnets ctx c (recording ec2Svc) (s, []))) =
          [DescribeSubnetsCall, SleepCall 5, DescribeSubnetsCall])
   \<and> (\<not> isl (fst (DescribeSubnets ec2Svc s)) \<longrightarrow>
        calls_of (GetVPCSubnets ctx c (recording ec2Svc) (s, [])) =
          [DescribeSubnetsCall, DescribeVpcsCall])"
proof (intro conjI impI)
  show "prefix (calls_of (getSubnets (recording ec2Svc) (s, [])))
     (calls_of (GetVPCSubnets ctx c (recording ec2Svc) (s, [])))"
    by (simp add: calls_of_def GetVPCSubnets_recording_log)
next
  assume a: "isl (fst (DescribeSubnets ec2Svc s))"
  from getSubnets_recording_retry [OF a]
  obtain cs where "snd (snd (getSubnets (recording ec2Svc) (s, []))) =
           DescribeSubnetsCall # SleepCall 5 # DescribeSubnetsCall # cs"
    by (rule exE)
  then show "take 3 (calls_of (GetVPCSubnets ctx c (recording ec2Svc) (s, []))) =
          [DescribeSubnetsCall, SleepCall 5, DescribeSubnetsCall]"
    by (simp add: calls_of_def GetVPCSubnets_recording_log numeral_3_eq_3)
next
  assume "\<not> isl (fst (DescribeSubnets ec2Svc s))"
  then obtain items where "DescribeSubnets ec2Svc (poll_state ec2Svc 0 s) =
      (Inr items, snd (DescribeSubnets ec2Svc s))"
    by (cases "DescribeSubnets ec2Svc s"; cases "fst (DescribeSubnets ec2Svc s)") auto
  then have "getSubnets (recording ec2Svc) (s, []) =
      (Return items, (snd (DescribeSubnets ec2Svc s), poll_calls 0))"
    by (intro getSubnets_recording_succeeds) simp_all
  then show "calls_of (GetVPCSubnets ctx c (recording ec2Svc) (s, [])) =
          [DescribeSubnetsCall, DescribeVpcsCall]"
    by (simp add: calls_of_def GetVPCSubnets_recording_log poll_calls_def)
qed

text \<open>With the expired context: the retry after a full interval, and the immediate listing.\<close>

theorem GetVPCSubnets_polls_whatever_the_context_witness:
  "take 3 (calls_of (GetVPCSubnets expired_ctx example_client (recording fake)
        (example_provider\<lparr>fake_ready_at := 5\<rparr>, []))) =
     [DescribeSubnetsCall, SleepCall 5, DescribeSubnetsCall]
   \<and> calls_of (GetVPCSubnets expired_ctx example_client (recording fake)
        (example_provider, [])) = [DescribeSubnetsCall, DescribeVpcsCall]"
  using GetVPCSubnets_polls_whatever_the_context [of fake
      "example_provider\<lparr>fake_ready_at := 5\<rparr>" expired_ctx example_client]
    GetVPCSubnets_polls_whatever_the_context [of fake example_provider expired_ctx
      example_client]
  by simp

end
